theory Spec2Isabelle
  imports Complex_Main
begin

section \<open>Arrays\<close>

text \<open>
  The gradient code of \<^verbatim>\<open>pyscf/grad/tdrhf.py\<close> is written with numpy arrays of floating
  point numbers.  Numbers are modelled as \<^typ>\<open>real\<close>: the properties below are about which
  terms enter which sum, not about rounding.  A one-dimensional array is a list, a
  two-dimensional array is the list of its rows, a stack of two-dimensional arrays (the
  three Cartesian components of a derivative integral) is a list of matrices.
\<close>

type_synonym vec = "real list"
type_synonym mat = "real list list"
type_synonym tensor = "mat list"

definition nrows :: "mat \<Rightarrow> nat" where
  "nrows A = length A"

definition ncols :: "mat \<Rightarrow> nat" where
  "ncols A = (case A of [] \<Rightarrow> 0 | r # _ \<Rightarrow> length r)"

definition rect :: "nat \<Rightarrow> nat \<Rightarrow> mat \<Rightarrow> bool" where
  "rect r c A = (length A = r \<and> list_all (\<lambda>row. length row = c) A)"

definition mk :: "nat \<Rightarrow> nat \<Rightarrow> (nat \<Rightarrow> nat \<Rightarrow> real) \<Rightarrow> mat" where
  "mk r c f = map (\<lambda>i. map (\<lambda>j. f i j) [0..<c]) [0..<r]"

definition sumto :: "nat \<Rightarrow> (nat \<Rightarrow> real) \<Rightarrow> real" where
  "sumto n f = sum_list (map f [0..<n])"

text \<open>Elementwise arithmetic: \<^verbatim>\<open>A + B\<close>, \<^verbatim>\<open>A - B\<close>, \<^verbatim>\<open>-A\<close>, \<^verbatim>\<open>A * c\<close>, \<^verbatim>\<open>A * B\<close>.\<close>

definition madd :: "mat \<Rightarrow> mat \<Rightarrow> mat" where
  "madd A B = map2 (map2 (+)) A B"

definition msub :: "mat \<Rightarrow> mat \<Rightarrow> mat" where
  "msub A B = map2 (map2 (-)) A B"

definition mneg :: "mat \<Rightarrow> mat" where
  "mneg A = map (map uminus) A"

definition smul :: "mat \<Rightarrow> real \<Rightarrow> mat" where
  "smul A c = map (map (\<lambda>v. v * c)) A"

definition mmul :: "mat \<Rightarrow> mat \<Rightarrow> mat" where
  "mmul A B = map2 (map2 (*)) A B"

text \<open>\<^verbatim>\<open>A.T\<close> and \<^verbatim>\<open>numpy.dot(A, B)\<close>; \<^verbatim>\<open>reduce(numpy.dot, (A, B, C))\<close> is
  \<^verbatim>\<open>dot(dot(A, B), C)\<close>.\<close>

definition mT :: "mat \<Rightarrow> mat" where
  "mT A = mk (ncols A) (nrows A) (\<lambda>j i. A ! i ! j)"

definition dot :: "mat \<Rightarrow> mat \<Rightarrow> mat" where
  "dot A B = mk (nrows A) (ncols B) (\<lambda>i j. sumto (ncols A) (\<lambda>k. A ! i ! k * B ! k ! j))"

definition dot3 :: "mat \<Rightarrow> mat \<Rightarrow> mat \<Rightarrow> mat" where
  "dot3 A B C = dot (dot A B) C"

text \<open>Slices \<^verbatim>\<open>A[r0:r1]\<close> of the rows and \<^verbatim>\<open>A[:, c0:c1]\<close> of the columns, for bounds that
  are not negative (Python clips them at the length).\<close>

definition slice :: "nat \<Rightarrow> nat \<Rightarrow> 'a list \<Rightarrow> 'a list" where
  "slice a b xs = take (b - a) (drop a xs)"

definition cslice :: "nat \<Rightarrow> nat \<Rightarrow> mat \<Rightarrow> mat" where
  "cslice a b A = map (slice a b) A"

definition zeros :: "nat \<Rightarrow> nat \<Rightarrow> mat" where
  "zeros r c = mk r c (\<lambda>i j. 0)"

definition eye :: "nat \<Rightarrow> mat" where
  "eye n = mk n n (\<lambda>i j. if i = j then 1 else 0)"

text \<open>Block assignment \<^verbatim>\<open>M[r0:, c0:] = B\<close> restricted to the extent of \<open>B\<close>: the source
  only assigns blocks that fill the sliced region.\<close>

definition set_block :: "nat \<Rightarrow> nat \<Rightarrow> mat \<Rightarrow> mat \<Rightarrow> mat" where
  "set_block r0 c0 B M =
     mk (nrows M) (ncols M)
       (\<lambda>p q. if r0 \<le> p \<and> p < r0 + nrows B \<and> c0 \<le> q \<and> q < c0 + ncols B
               then B ! (p - r0) ! (q - c0) else M ! p ! q)"

section \<open>The einsum contractions of the kernel\<close>

definition einsum_ai_bi_ab :: "mat \<Rightarrow> mat \<Rightarrow> mat" where
  "einsum_ai_bi_ab A B =
     mk (nrows A) (nrows B) (\<lambda>a b. sumto (ncols A) (\<lambda>i. A ! a ! i * B ! b ! i))"

definition einsum_ai_aj_ij :: "mat \<Rightarrow> mat \<Rightarrow> mat" where
  "einsum_ai_aj_ij A B =
     mk (ncols A) (ncols B) (\<lambda>i j. sumto (nrows A) (\<lambda>a. A ! a ! i * B ! a ! j))"

definition einsum_ki_ai_ak :: "mat \<Rightarrow> mat \<Rightarrow> mat" where
  "einsum_ki_ai_ak V X =
     mk (nrows X) (nrows V) (\<lambda>a k. sumto (ncols V) (\<lambda>i. V ! k ! i * X ! a ! i))"

definition einsum_ac_ai_ci :: "mat \<Rightarrow> mat \<Rightarrow> mat" where
  "einsum_ac_ai_ci V X =
     mk (ncols V) (ncols X) (\<lambda>c i. sumto (nrows V) (\<lambda>a. V ! a ! c * X ! a ! i))"

definition einsum_ak_ai_ki :: "mat \<Rightarrow> mat \<Rightarrow> mat" where
  "einsum_ak_ai_ki V X =
     mk (ncols V) (ncols X) (\<lambda>k i. sumto (nrows V) (\<lambda>a. V ! a ! k * X ! a ! i))"

definition einsum_ci_ai_ac :: "mat \<Rightarrow> mat \<Rightarrow> mat" where
  "einsum_ci_ai_ac V X =
     mk (nrows X) (nrows V) (\<lambda>a c. sumto (ncols V) (\<lambda>i. V ! c ! i * X ! a ! i))"

text \<open>\<^verbatim>\<open>einsum('pq,pq->', A, B)\<close> and \<^verbatim>\<open>einsum('qp,pq->', A, B)\<close>, one Cartesian component of
  the contractions \<^verbatim>\<open>'xpq,pq->x'\<close>, \<^verbatim>\<open>'xij,ij->x'\<close>, \<^verbatim>\<open>'xqp,pq->x'\<close> and \<^verbatim>\<open>'xji,ij->x'\<close>.\<close>

definition einsum_pq_pq :: "mat \<Rightarrow> mat \<Rightarrow> real" where
  "einsum_pq_pq A B =
     sumto (nrows A) (\<lambda>p. sumto (ncols A) (\<lambda>q. A ! p ! q * B ! p ! q))"

definition einsum_qp_pq :: "mat \<Rightarrow> mat \<Rightarrow> real" where
  "einsum_qp_pq A B =
     sumto (nrows A) (\<lambda>q. sumto (ncols A) (\<lambda>p. A ! q ! p * B ! p ! q))"

section \<open>Python values and failures\<close>

datatype error = IndexError | ValueError | AttributeError

text \<open>\<^verbatim>\<open>xs[i]\<close> on a Python sequence: a negative index counts from the end, an index out of
  range raises \<^verbatim>\<open>IndexError\<close>.\<close>

definition py_index :: "'a list \<Rightarrow> int \<Rightarrow> error + 'a" where
  "py_index xs i =
     (let n = int (length xs); j = (if i < 0 then n + i else i)
      in if 0 \<le> j \<and> j < n then Inr (xs ! nat j) else Inl IndexError)"

text \<open>An amplitude component is a two-dimensional array or a plain number (the
  Tamm-Dancoff solver stores the number \<^verbatim>\<open>0\<close> for Y).  \<^verbatim>\<open>x + y\<close> and \<^verbatim>\<open>x - y\<close> broadcast
  as numpy does: a number against every entry, an axis of length one against the other
  operand's axis, and \<^verbatim>\<open>ValueError\<close> for shapes that do not fit.\<close>

datatype ndarray = Scalar real | Array mat

fun np_binop :: "(real \<Rightarrow> real \<Rightarrow> real) \<Rightarrow> ndarray \<Rightarrow> ndarray \<Rightarrow> error + ndarray" where
  "np_binop f (Scalar a) (Scalar b) = Inr (Scalar (f a b))"
| "np_binop f (Scalar a) (Array B) = Inr (Array (map (map (\<lambda>v. f a v)) B))"
| "np_binop f (Array A) (Scalar b) = Inr (Array (map (map (\<lambda>v. f v b)) A))"
| "np_binop f (Array A) (Array B) =
     (let ra = nrows A; ca = ncols A; rb = nrows B; cb = ncols B
      in if (ra = rb \<or> ra = 1 \<or> rb = 1) \<and> (ca = cb \<or> ca = 1 \<or> cb = 1)
         then Inr (Array (mk (if ra = 1 then rb else ra) (if ca = 1 then cb else ca)
                (\<lambda>i j. f (A ! (if ra = 1 then 0 else i) ! (if ca = 1 then 0 else j))
                          (B ! (if rb = 1 then 0 else i) ! (if cb = 1 then 0 else j)))))
         else Inl ValueError)"

text \<open>\<^verbatim>\<open>a.reshape(r, c)\<close>: the entries in row-major order, \<^verbatim>\<open>ValueError\<close> when their number
  is not \<open>r * c\<close>; a plain Python number has no \<^verbatim>\<open>reshape\<close>.\<close>

definition reshape :: "nat \<Rightarrow> nat \<Rightarrow> vec \<Rightarrow> mat" where
  "reshape r c v = mk r c (\<lambda>i j. v ! (i * c + j))"

fun np_reshape :: "nat \<Rightarrow> nat \<Rightarrow> ndarray \<Rightarrow> error + mat" where
  "np_reshape r c (Scalar a) = Inl AttributeError"
| "np_reshape r c (Array A) =
     (if length (concat A) = r * c then Inr (reshape r c (concat A)) else Inl ValueError)"

section \<open>The collaborators of the gradient code\<close>

text \<open>
  The kernel reads the converged reference (\<^verbatim>\<open>mf.mo_coeff\<close>, \<^verbatim>\<open>mf.mo_energy\<close>,
  \<^verbatim>\<open>mf.mo_occ\<close>), the molecule (\<^verbatim>\<open>mol.natm\<close>, \<^verbatim>\<open>mol.offset_nr_by_atom()\<close>) and the bound
  excited-state solver (\<^verbatim>\<open>td.xy\<close>, \<^verbatim>\<open>td.singlet\<close>), and it calls code outside the module: the
  Coulomb/exchange build \<^verbatim>\<open>mf.get_jk\<close>, its nuclear derivative \<^verbatim>\<open>td_grad.get_jk\<close>, the
  linear solver \<^verbatim>\<open>cphf.solve\<close>, the generator of core-Hamiltonian derivatives, the overlap
  derivative, the nuclear-repulsion gradient and the ground-state gradient method.  They
  are parameters of the model.  A build over several densities returns one J and one K
  per density, so \<open>get_jk\<close> and \<open>grad_get_jk\<close> are given per density; the first argument
  of \<open>get_jk\<close> is the \<^verbatim>\<open>hermi\<close> flag of the call.
\<close>

record env =
  mo_coeff :: mat
  mo_energy :: vec
  mo_occ :: vec
  natm :: nat
  offset_nr_by_atom :: "(nat \<times> nat \<times> nat \<times> nat) list"
  get_jk :: "int \<Rightarrow> mat \<Rightarrow> mat \<times> mat"
  cphf_solve :: "(vec \<Rightarrow> vec) \<Rightarrow> vec \<Rightarrow> vec \<Rightarrow> mat \<Rightarrow> int \<Rightarrow> real \<Rightarrow> mat"
  cphf_max_cycle :: int
  cphf_conv_tol :: real
  hcore_generator :: "int \<Rightarrow> tensor"
  get_ovlp :: tensor
  grad_get_jk :: "mat \<Rightarrow> tensor \<times> tensor"
  grad_nuc :: "int list \<Rightarrow> mat"
  scf_grad_kernel :: "int list option \<Rightarrow> mat"
  td_xy :: "(ndarray \<times> ndarray) list"
  td_singlet :: bool

section \<open>The kernel, line by line\<close>

definition nao :: "env \<Rightarrow> nat" where
  "nao E = nrows (mo_coeff E)"

definition nmo :: "env \<Rightarrow> nat" where
  "nmo E = ncols (mo_coeff E)"

definition nocc :: "env \<Rightarrow> nat" where
  "nocc E = length (filter (\<lambda>occ. 0 < occ) (mo_occ E))"

definition nvir :: "env \<Rightarrow> nat" where
  "nvir E = nmo E - nocc E"

definition xpy_of :: "env \<Rightarrow> ndarray \<times> ndarray \<Rightarrow> error + mat" where
  "xpy_of E x_y =
     (case np_binop (+) (fst x_y) (snd x_y) of
        Inl e \<Rightarrow> Inl e
      | Inr s \<Rightarrow> (case np_reshape (nocc E) (nvir E) s of
                    Inl e \<Rightarrow> Inl e
                  | Inr m \<Rightarrow> Inr (mT m)))"

definition xmy_of :: "env \<Rightarrow> ndarray \<times> ndarray \<Rightarrow> error + mat" where
  "xmy_of E x_y =
     (case np_binop (-) (fst x_y) (snd x_y) of
        Inl e \<Rightarrow> Inl e
      | Inr s \<Rightarrow> (case np_reshape (nocc E) (nvir E) s of
                    Inl e \<Rightarrow> Inl e
                  | Inr m \<Rightarrow> Inr (mT m)))"

definition orbv :: "env \<Rightarrow> mat" where
  "orbv E = map (drop (nocc E)) (mo_coeff E)"

definition orbo :: "env \<Rightarrow> mat" where
  "orbo E = map (take (nocc E)) (mo_coeff E)"

definition dvv :: "mat \<Rightarrow> mat \<Rightarrow> mat" where
  "dvv xpy xmy = madd (einsum_ai_bi_ab xpy xpy) (einsum_ai_bi_ab xmy xmy)"

definition doo :: "mat \<Rightarrow> mat \<Rightarrow> mat" where
  "doo xpy xmy = msub (mneg (einsum_ai_aj_ij xpy xpy)) (einsum_ai_aj_ij xmy xmy)"

definition dmzvop :: "env \<Rightarrow> mat \<Rightarrow> mat" where
  "dmzvop E xpy = dot3 (orbv E) xpy (mT (orbo E))"

definition dmzvom :: "env \<Rightarrow> mat \<Rightarrow> mat" where
  "dmzvom E xmy = dot3 (orbv E) xmy (mT (orbo E))"

definition dmzoo :: "env \<Rightarrow> mat \<Rightarrow> mat \<Rightarrow> mat" where
  "dmzoo E xpy xmy =
     madd (dot3 (orbo E) (doo xpy xmy) (mT (orbo E)))
          (dot3 (orbv E) (dvv xpy xmy) (mT (orbv E)))"

text \<open>Lines 64 to 77: one build over \<^verbatim>\<open>(dmzoo, dmzvop+dmzvop.T, dmzvom-dmzvom.T)\<close> with
  \<^verbatim>\<open>hermi=0\<close>; \<open>vj[k]\<close> and \<open>vk[k]\<close> are the J and K of the k-th density.\<close>

definition veff0doo :: "env \<Rightarrow> mat \<Rightarrow> mat \<Rightarrow> mat" where
  "veff0doo E xpy xmy =
     (let vj0 = fst (get_jk E 0 (dmzoo E xpy xmy));
          vk0 = snd (get_jk E 0 (dmzoo E xpy xmy))
      in msub (smul vj0 2) vk0)"

definition veff0mop :: "env \<Rightarrow> bool \<Rightarrow> mat \<Rightarrow> mat" where
  "veff0mop E singlet xpy =
     (let dm = madd (dmzvop E xpy) (mT (dmzvop E xpy));
          vj1 = fst (get_jk E 0 dm);
          vk1 = snd (get_jk E 0 dm);
          veff = (if singlet then msub (smul vj1 2) vk1 else mneg vk1)
      in dot3 (mT (mo_coeff E)) veff (mo_coeff E))"

definition veff0mom :: "env \<Rightarrow> mat \<Rightarrow> mat" where
  "veff0mom E xmy =
     (let dm = msub (dmzvom E xmy) (mT (dmzvom E xmy));
          vk2 = snd (get_jk E 0 dm);
          veff = mneg vk2
      in dot3 (mT (mo_coeff E)) veff (mo_coeff E))"

text \<open>The blocks \<^verbatim>\<open>V[:nocc,:nocc]\<close>, \<^verbatim>\<open>V[nocc:,nocc:]\<close> and \<^verbatim>\<open>V[nocc:,:nocc]\<close>.\<close>

definition blk_oo :: "nat \<Rightarrow> mat \<Rightarrow> mat" where
  "blk_oo n V = map (take n) (take n V)"

definition blk_vv :: "nat \<Rightarrow> mat \<Rightarrow> mat" where
  "blk_vv n V = map (drop n) (drop n V)"

definition blk_vo :: "nat \<Rightarrow> mat \<Rightarrow> mat" where
  "blk_vo n V = map (take n) (drop n V)"

definition wvo :: "env \<Rightarrow> bool \<Rightarrow> mat \<Rightarrow> mat \<Rightarrow> mat" where
  "wvo E singlet xpy xmy =
     (let n = nocc E;
          w = smul (dot3 (mT (orbv E)) (veff0doo E xpy xmy) (orbo E)) 2;
          w = msub w (smul (einsum_ki_ai_ak (blk_oo n (veff0mop E singlet xpy)) xpy) 2);
          w = madd w (smul (einsum_ac_ai_ci (blk_vv n (veff0mop E singlet xpy)) xpy) 2);
          w = msub w (smul (einsum_ki_ai_ak (blk_oo n (veff0mom E xmy)) xmy) 2);
          w = madd w (smul (einsum_ac_ai_ci (blk_vv n (veff0mom E xmy)) xmy) 2)
      in w)"

text \<open>The response function handed to the solver.  The solver passes and receives flat
  vectors; a wrong length would raise inside the solver, which the model leaves to it.\<close>

definition fvind :: "env \<Rightarrow> vec \<Rightarrow> vec" where
  "fvind E x =
     (let dm = dot3 (orbv E) (reshape (nvir E) (nocc E) x) (mT (orbo E));
          vj = fst (get_jk E 1 (madd dm (mT dm)));
          vk = snd (get_jk E 1 (madd dm (mT dm)))
      in concat (dot3 (mT (orbv E)) (msub (smul vj 2) vk) (orbo E)))"

definition z1_of :: "env \<Rightarrow> bool \<Rightarrow> mat \<Rightarrow> mat \<Rightarrow> error + mat" where
  "z1_of E singlet xpy xmy =
     np_reshape (nvir E) (nocc E)
       (Array (cphf_solve E (fvind E) (mo_energy E) (mo_occ E) (wvo E singlet xpy xmy)
                 (cphf_max_cycle E) (cphf_conv_tol E)))"

definition z1ao :: "env \<Rightarrow> mat \<Rightarrow> mat" where
  "z1ao E z1 = dot3 (orbv E) z1 (mT (orbo E))"

definition veff_z1 :: "env \<Rightarrow> mat \<Rightarrow> mat" where
  "veff_z1 E z1 =
     (let vj = fst (get_jk E 0 (z1ao E z1));
          vk = snd (get_jk E 0 (z1ao E z1))
      in msub (smul vj 2) vk)"

text \<open>\<^verbatim>\<open>M[r0:, c0:] += B\<close>, again on the extent of \<open>B\<close>.\<close>

definition add_block :: "nat \<Rightarrow> nat \<Rightarrow> mat \<Rightarrow> mat \<Rightarrow> mat" where
  "add_block r0 c0 B M =
     mk (nrows M) (ncols M)
       (\<lambda>p q. if r0 \<le> p \<and> p < r0 + nrows B \<and> c0 \<le> q \<and> q < c0 + ncols B
               then M ! p ! q + B ! (p - r0) ! (q - c0) else M ! p ! q)"

text \<open>Lines 92 to 99: the Lagrangian in the MO basis.\<close>

definition im0_mo :: "env \<Rightarrow> bool \<Rightarrow> mat \<Rightarrow> mat \<Rightarrow> mat \<Rightarrow> mat" where
  "im0_mo E singlet xpy xmy z1 =
     (let n = nocc E;
          mop = veff0mop E singlet xpy;
          mom = veff0mom E xmy;
          im0 = zeros (nmo E) (nmo E);
          im0 = set_block 0 0
                  (dot3 (mT (orbo E)) (madd (veff0doo E xpy xmy) (veff_z1 E z1)) (orbo E)) im0;
          im0 = add_block 0 0 (einsum_ak_ai_ki (blk_vo n mop) xpy) im0;
          im0 = add_block 0 0 (einsum_ak_ai_ki (blk_vo n mom) xmy) im0;
          im0 = set_block n n (einsum_ci_ai_ac (blk_vo n mop) xpy) im0;
          im0 = add_block n n (einsum_ci_ai_ac (blk_vo n mom) xmy) im0;
          im0 = set_block n 0 (smul (einsum_ki_ai_ak (blk_oo n mop) xpy) 2) im0;
          im0 = add_block n 0 (smul (einsum_ki_ai_ak (blk_oo n mom) xmy) 2) im0
      in im0)"

text \<open>Lines 101 to 103.  \<^verbatim>\<open>lib.direct_sum('i+j->ij', e, e) * .5\<close> and the two block
  assignments of a vector, which numpy broadcasts to every row of the block.\<close>

definition zeta :: "env \<Rightarrow> mat" where
  "zeta E =
     (let e = mo_energy E; n = nocc E;
          z = mk (length e) (length e) (\<lambda>i j. (e ! i + e ! j) * 0.5);
          z = set_block n 0 (replicate (nrows z - n) (take n e)) z;
          z = set_block 0 n (replicate (min n (nrows z)) (drop n e)) z
      in z)"

text \<open>Lines 104 to 108.\<close>

definition dm1 :: "env \<Rightarrow> mat \<Rightarrow> mat \<Rightarrow> mat \<Rightarrow> mat" where
  "dm1 E xpy xmy z1 =
     (let n = nocc E;
          d = zeros (nmo E) (nmo E);
          d = set_block 0 0 (doo xpy xmy) d;
          d = set_block n n (dvv xpy xmy) d;
          d = set_block n 0 z1 d;
          d = add_block 0 0 (smul (eye n) 2) d
      in d)"

definition im0_ao :: "env \<Rightarrow> bool \<Rightarrow> mat \<Rightarrow> mat \<Rightarrow> mat \<Rightarrow> mat" where
  "im0_ao E singlet xpy xmy z1 =
     dot3 (mo_coeff E)
       (madd (im0_mo E singlet xpy xmy z1) (mmul (zeta E) (dm1 E xpy xmy z1)))
       (mT (mo_coeff E))"

text \<open>Lines 114 to 123: the densities of the derivative build and the combined
  potential, one stack of three Cartesian components per density.\<close>

definition dmz1doo :: "env \<Rightarrow> mat \<Rightarrow> mat \<Rightarrow> mat \<Rightarrow> mat" where
  "dmz1doo E xpy xmy z1 = madd (z1ao E z1) (dmzoo E xpy xmy)"

definition oo0 :: "env \<Rightarrow> mat" where
  "oo0 E = dot (orbo E) (mT (orbo E))"

definition grad_dms :: "env \<Rightarrow> mat \<Rightarrow> mat \<Rightarrow> mat \<Rightarrow> mat list" where
  "grad_dms E xpy xmy z1 =
     [oo0 E,
      madd (dmz1doo E xpy xmy z1) (mT (dmz1doo E xpy xmy z1)),
      madd (dmzvop E xpy) (mT (dmzvop E xpy)),
      msub (dmzvom E xmy) (mT (dmzvom E xmy))]"

definition tsub :: "tensor \<Rightarrow> tensor \<Rightarrow> tensor" where
  "tsub S T = map2 msub S T"

definition tsmul :: "tensor \<Rightarrow> real \<Rightarrow> tensor" where
  "tsmul S c = map (\<lambda>A. smul A c) S"

definition tneg :: "tensor \<Rightarrow> tensor" where
  "tneg S = map mneg S"

definition vhf1 :: "env \<Rightarrow> bool \<Rightarrow> mat \<Rightarrow> mat \<Rightarrow> mat \<Rightarrow> tensor list" where
  "vhf1 E singlet xpy xmy z1 =
     (let vj = map (\<lambda>dm. fst (grad_get_jk E dm)) (grad_dms E xpy xmy z1);
          vk = map (\<lambda>dm. snd (grad_get_jk E dm)) (grad_dms E xpy xmy z1)
      in if singlet then map2 tsub (map (\<lambda>t. tsmul t 2) vj) vk
         else map2 tsub (map (\<lambda>t. tsmul t 2) (take 2 vj)) (take 2 vk) @ map tneg (drop 2 vk))"

text \<open>Lines 134 to 136: \<^verbatim>\<open>h1ao[:,p0:p1] += v[:,p0:p1]\<close> and
  \<^verbatim>\<open>h1ao[:,:,p0:p1] += v[:,p0:p1].transpose(0,2,1)\<close>, for one Cartesian component.\<close>

definition add_rows :: "nat \<Rightarrow> nat \<Rightarrow> mat \<Rightarrow> mat \<Rightarrow> mat" where
  "add_rows p0 p1 V H =
     mk (nrows H) (ncols H)
       (\<lambda>p q. if p0 \<le> p \<and> p < p1 then H ! p ! q + V ! p ! q else H ! p ! q)"

definition add_cols_T :: "nat \<Rightarrow> nat \<Rightarrow> mat \<Rightarrow> mat \<Rightarrow> mat" where
  "add_cols_T p0 p1 V H =
     mk (nrows H) (ncols H)
       (\<lambda>p q. if p0 \<le> q \<and> q < p1 then H ! p ! q + V ! q ! p else H ! p ! q)"

text \<open>Lines 131 to 148: the row \<^verbatim>\<open>de[k]\<close> of atom \<open>ia\<close>, whose basis functions are
  \<open>p0..<p1\<close>; \<^verbatim>\<open>de\<close> is created with three columns.\<close>

definition de_atom :: "env \<Rightarrow> bool \<Rightarrow> mat \<Rightarrow> mat \<Rightarrow> mat \<Rightarrow> int \<Rightarrow> nat \<Rightarrow> nat \<Rightarrow> vec" where
  "de_atom E singlet xpy xmy z1 ia p0 p1 =
     map (\<lambda>x.
       (let v = vhf1 E singlet xpy xmy z1;
            s1 = get_ovlp E ! x;
            im0 = im0_ao E singlet xpy xmy z1;
            h1ao = hcore_generator E ia ! x;
            h1ao = add_rows p0 p1 (v ! 0 ! x) h1ao;
            h1ao = add_cols_T p0 p1 (v ! 0 ! x) h1ao;
            d = einsum_pq_pq h1ao (oo0 E) * 2;
            d = d + einsum_pq_pq h1ao (dmz1doo E xpy xmy z1);
            d = d - einsum_pq_pq (slice p0 p1 s1) (slice p0 p1 im0);
            d = d - einsum_qp_pq (slice p0 p1 s1) (cslice p0 p1 im0);
            d = d + einsum_pq_pq (slice p0 p1 (v ! 1 ! x)) (slice p0 p1 (oo0 E));
            d = d + einsum_pq_pq (slice p0 p1 (v ! 2 ! x)) (slice p0 p1 (dmzvop E xpy)) * 2;
            d = d + einsum_pq_pq (slice p0 p1 (v ! 3 ! x)) (slice p0 p1 (dmzvom E xmy)) * 2;
            d = d + einsum_qp_pq (slice p0 p1 (v ! 2 ! x)) (cslice p0 p1 (dmzvop E xpy)) * 2;
            d = d - einsum_qp_pq (slice p0 p1 (v ! 3 ! x)) (cslice p0 p1 (dmzvom E xmy)) * 2
        in d)) [0..<3]"

text \<open>The loop over the atom list: \<^verbatim>\<open>offsetdic[ia]\<close> raises for an atom that is not in the
  table, and the exception leaves the kernel.\<close>

fun de_loop :: "env \<Rightarrow> bool \<Rightarrow> mat \<Rightarrow> mat \<Rightarrow> mat \<Rightarrow> int list \<Rightarrow> error + mat" where
  "de_loop E singlet xpy xmy z1 [] = Inr []"
| "de_loop E singlet xpy xmy z1 (ia # rest) =
     (case py_index (offset_nr_by_atom E) ia of
        Inl e \<Rightarrow> Inl e
      | Inr (shl0, shl1, p0, p1) \<Rightarrow>
          (case de_loop E singlet xpy xmy z1 rest of
             Inl e \<Rightarrow> Inl e
           | Inr rows \<Rightarrow> Inr (de_atom E singlet xpy xmy z1 ia p0 p1 # rows)))"

definition kernel :: "env \<Rightarrow> ndarray \<times> ndarray \<Rightarrow> bool \<Rightarrow> int list option \<Rightarrow> error + mat" where
  "kernel E x_y singlet atmlst =
     (case xpy_of E x_y of
        Inl e \<Rightarrow> Inl e
      | Inr xpy \<Rightarrow>
     (case xmy_of E x_y of
        Inl e \<Rightarrow> Inl e
      | Inr xmy \<Rightarrow>
     (case z1_of E singlet xpy xmy of
        Inl e \<Rightarrow> Inl e
      | Inr z1 \<Rightarrow>
          de_loop E singlet xpy xmy z1
            (case atmlst of None \<Rightarrow> map int [0..<natm E] | Some l \<Rightarrow> l))))"

section \<open>The driver\<close>

text \<open>
  A \<^verbatim>\<open>Gradients\<close> object keeps the last result in \<^verbatim>\<open>self.de\<close> (the number 0 until the
  first excited-state call, here \<open>None\<close>).  What a call does besides computing is kept
  as a trace: the warning, the sanity check, the calls of the ground-state gradient
  method, of \<^verbatim>\<open>grad_elec\<close> and of \<^verbatim>\<open>grad_nuc\<close>, and the lines of the printed table.
  Timings are left out.
\<close>

datatype event =
    Warn string
  | GroundStateKernel "int list option"
  | CheckSanity
  | GradElec "ndarray \<times> ndarray" bool "int list"
  | GradNuc "int list"
  | Note string
  | NoteAtom int vec

record gradients =
  de :: "mat option"
  trace :: "event list"

definition grad_elec :: "env \<Rightarrow> ndarray \<times> ndarray \<Rightarrow> bool \<Rightarrow> int list option \<Rightarrow> error + mat" where
  "grad_elec E xy singlet atmlst = kernel E xy singlet atmlst"

definition Gradients_kernel ::
  "env \<Rightarrow> gradients \<Rightarrow> (ndarray \<times> ndarray) option \<Rightarrow> int \<Rightarrow> bool option \<Rightarrow> int list option
     \<Rightarrow> (error + mat) \<times> gradients" where
  "Gradients_kernel E self xy state singlet atmlst =
     (if state = 0 then
        (Inr (scf_grad_kernel E atmlst),
         self\<lparr>trace := trace self @
           [Warn ''state=0 found in the input. Gradients of ground state is computed.'',
            GroundStateKernel atmlst]\<rparr>)
      else
        (case (case xy of None \<Rightarrow> py_index (td_xy E) (state - 1) | Some p \<Rightarrow> Inr p) of
           Inl e \<Rightarrow> (Inl e, self)
         | Inr xy \<Rightarrow>
             (let singlet = (case singlet of None \<Rightarrow> td_singlet E | Some s \<Rightarrow> s);
                  atmlst = (case atmlst of None \<Rightarrow> map int [0..<natm E] | Some l \<Rightarrow> l);
                  self = self\<lparr>trace := trace self @ [CheckSanity, GradElec xy singlet atmlst]\<rparr>
              in case grad_elec E xy singlet (Some atmlst) of
                   Inl e \<Rightarrow> (Inl e, self)
                 | Inr d \<Rightarrow>
                     (let d = madd d (grad_nuc E atmlst)
                      in (Inr d,
                          self\<lparr>de := Some d,
                               trace := trace self @ [GradNuc atmlst, Note ''--------------'',
                                 Note ''           x                y                z'']
                                 @ map2 NoteAtom atmlst d @ [Note ''--------------'']\<rparr>)))))"

section \<open>Notions used in the statements\<close>

text \<open>What the reference hands over is well formed when the coefficient matrix is
  rectangular and there is at least one occupied and one virtual orbital, the occupied
  ones first (the kernel splits the columns at \<open>nocc\<close>).\<close>

definition wf_mo :: "env \<Rightarrow> bool" where
  "wf_mo E = (rect (nao E) (nmo E) (mo_coeff E) \<and> 0 < nocc E \<and> nocc E < nmo E)"

text \<open>The atoms that \<^verbatim>\<open>offsetdic[ia]\<close> accepts.\<close>

definition valid_atoms :: "env \<Rightarrow> int list \<Rightarrow> bool" where
  "valid_atoms E l =
     list_all (\<lambda>ia. - int (length (offset_nr_by_atom E)) \<le> ia
                   \<and> ia < int (length (offset_nr_by_atom E))) l"

text \<open>What one call appends to the trace.\<close>

definition new_events :: "gradients \<Rightarrow> gradients \<Rightarrow> event list" where
  "new_events before after = drop (length (trace before)) (trace after)"

text \<open>The variant computation of the specification's test of the singlet/triplet rule:
  the same collaborators, with every J of \<^verbatim>\<open>mf.get_jk\<close> forced to zero.\<close>

definition zeroJ :: "env \<Rightarrow> env" where
  "zeroJ E = E\<lparr>get_jk := (\<lambda>h dm. (smul (fst (get_jk E h dm)) 0, snd (get_jk E h dm)))\<rparr>"

subsection \<open>A two-orbital example\<close>

text \<open>
  Two atoms with one basis function each; the occupied orbital is the second function,
  the virtual orbital the first.  The only two-electron integrals are the repulsion \<open>g\<close>
  between the two sites, so that the J of a density is \<open>g\<close> times its diagonal swapped
  and the K of a density is its off-diagonal part.  The solver is the exact solution of
  the response equation for one occupied and one virtual orbital.  The solver stores two
  states, the first in the Tamm-Dancoff form.
\<close>

definition solve1 :: "(vec \<Rightarrow> vec) \<Rightarrow> vec \<Rightarrow> vec \<Rightarrow> mat \<Rightarrow> int \<Rightarrow> real \<Rightarrow> mat" where
  "solve1 fv e occ h mc tol =
     [[(- (h ! 0 ! 0) / (e ! 1 - e ! 0)) / (1 + fv [1] ! 0 / (e ! 1 - e ! 0))]]"

definition Eg :: "real \<Rightarrow> env" where
  "Eg g = \<lparr> mo_coeff = [[0, 1], [1, 0]], mo_energy = [-1, 1], mo_occ = [2, 0], natm = 2,
     offset_nr_by_atom = [(0, 1, 0, 1), (1, 2, 1, 2)],
     get_jk = (\<lambda>h D. ([[g * D ! 1 ! 1, 0], [0, g * D ! 0 ! 0]],
                       [[0, D ! 0 ! 1], [D ! 1 ! 0, 0]])),
     cphf_solve = solve1, cphf_max_cycle = 20, cphf_conv_tol = 1 / 100000000,
     hcore_generator = (\<lambda>ia. [[[1, 0], [0, 0]], [[0, 1], [1, 0]], [[0, 0], [0, 1]]]),
     get_ovlp = [[[1, 2], [3, 4]], [[0, 1], [1, 0]], [[1, 0], [0, 1]]],
     grad_get_jk = (\<lambda>D. ([D, smul D 2, smul D 3], [mT D, D, zeros 2 2])),
     grad_nuc = (\<lambda>l. map (\<lambda>ia. [0, 0, real_of_int ia]) l),
     scf_grad_kernel = (\<lambda>a. case a of None \<Rightarrow> [[0, 0, 1], [0, 0, -1]]
                                | Some l \<Rightarrow> map (\<lambda>ia. [0, 0, 1]) l),
     td_xy = [(Array [[1]], Scalar 0), (Array [[3]], Array [[1]])],
     td_singlet = True \<rparr>"

definition fresh :: gradients where
  "fresh = \<lparr>de = None, trace = []\<rparr>"

section \<open>Shapes and entries\<close>

lemma length_mk: "length (mk r c f) = r"
  by (simp add: mk_def)

lemma nrows_mk: "nrows (mk r c f) = r"
  by (simp add: nrows_def mk_def)

lemma ncols_mk: "ncols (mk r c f) = (if r = 0 then 0 else c)"
proof (cases r)
  case 0
  then show ?thesis by (simp add: ncols_def mk_def)
next
  case (Suc n)
  then have "[0..<r] = 0 # [1..<r]" by (simp add: upt_conv_Cons)
  then show ?thesis using Suc by (simp add: ncols_def mk_def)
qed

lemma nth_mk: "i < r \<Longrightarrow> j < c \<Longrightarrow> mk r c f ! i ! j = f i j"
  by (simp add: mk_def)

lemma rect_mk: "rect r c (mk r c f)"
  by (simp add: rect_def mk_def list_all_iff)

lemma rect_nrows: "rect r c A \<Longrightarrow> nrows A = r"
  by (simp add: rect_def nrows_def)

lemma rect_ncols: "rect r c A \<Longrightarrow> 0 < r \<Longrightarrow> ncols A = c"
  by (cases A) (auto simp: rect_def ncols_def)

lemma ncols_nrows0: "nrows M = 0 \<Longrightarrow> ncols M = 0"
  by (simp add: nrows_def ncols_def)

lemma mk_cong: "(\<And>i j. i < r \<Longrightarrow> j < c \<Longrightarrow> f i j = g i j) \<Longrightarrow> mk r c f = mk r c g"
  by (simp add: mk_def)

lemma rect_eq_mk: "rect r c A \<Longrightarrow> A = mk r c (\<lambda>i j. A ! i ! j)"
  unfolding mk_def rect_def list_all_length
  by (auto intro!: nth_equalityI)

lemma sumto_sum: "sumto n f = (\<Sum>i<n. f i)"
  by (simp add: sumto_def interv_sum_list_conv_sum_set_nat atLeast0LessThan)

lemma map2_mk: "map2 (map2 f) (mk r c g) (mk r c h) = mk r c (\<lambda>i j. f (g i j) (h i j))"
  unfolding mk_def
  by (intro nth_equalityI) (auto simp: zip_map_map)

lemma madd_mk: "madd (mk r c f) (mk r c g) = mk r c (\<lambda>i j. f i j + g i j)"
  by (simp add: madd_def map2_mk)

lemma msub_mk: "msub (mk r c f) (mk r c g) = mk r c (\<lambda>i j. f i j - g i j)"
  by (simp add: msub_def map2_mk)

lemma mneg_mk: "mneg (mk r c f) = mk r c (\<lambda>i j. - f i j)"
  by (simp add: mneg_def mk_def)

lemma smul_mk: "smul (mk r c f) k = mk r c (\<lambda>i j. f i j * k)"
  by (simp add: smul_def mk_def)

lemma madd_rect: "rect r c A \<Longrightarrow> rect r c B \<Longrightarrow> rect r c (madd A B)"
  by (auto simp: rect_def madd_def list_all_length)

lemma mT_rect: "rect r c A \<Longrightarrow> 0 < r \<Longrightarrow> mT A = mk c r (\<lambda>j i. A ! i ! j)"
  by (simp add: mT_def rect_nrows rect_ncols)

lemma dot_rect:
  "rect r k A \<Longrightarrow> rect k c B \<Longrightarrow> 0 < k \<Longrightarrow> 0 < r \<Longrightarrow>
   dot A B = mk r c (\<lambda>i j. \<Sum>l<k. A ! i ! l * B ! l ! j)"
  by (simp add: dot_def rect_nrows rect_ncols sumto_sum)

lemma dot3_rect:
  assumes "rect r k A" "rect k l B" "rect l c C" "0 < r" "0 < k" "0 < l"
  shows "dot3 A B C = mk r c (\<lambda>p q. \<Sum>j<l. (\<Sum>i<k. A ! p ! i * B ! i ! j) * C ! j ! q)"
proof -
  have 1: "dot A B = mk r l (\<lambda>p j. \<Sum>i<k. A ! p ! i * B ! i ! j)"
    using assms by (simp add: dot_rect)
  have "dot (mk r l (\<lambda>p j. \<Sum>i<k. A ! p ! i * B ! i ! j)) C =
        mk r c (\<lambda>p q. \<Sum>j<l. mk r l (\<lambda>p j. \<Sum>i<k. A ! p ! i * B ! i ! j) ! p ! j * C ! j ! q)"
    using assms by (simp add: dot_rect rect_mk)
  also have "\<dots> = mk r c (\<lambda>p q. \<Sum>j<l. (\<Sum>i<k. A ! p ! i * B ! i ! j) * C ! j ! q)"
    by (rule mk_cong) (simp add: nth_mk)
  finally show ?thesis by (simp add: dot3_def 1)
qed

lemma rect_map_take: "rect r c A \<Longrightarrow> n \<le> c \<Longrightarrow> rect r n (map (take n) A)"
  by (auto simp: rect_def list_all_iff)

lemma rect_map_drop: "rect r c A \<Longrightarrow> rect r (c - n) (map (drop n) A)"
  by (auto simp: rect_def list_all_iff)

lemma nrows_set_block [simp]: "nrows (set_block r0 c0 B M) = nrows M"
  by (simp add: set_block_def nrows_mk)

lemma ncols_set_block [simp]: "ncols (set_block r0 c0 B M) = ncols M"
  by (simp add: set_block_def ncols_mk ncols_nrows0)

lemma nth_set_block:
  "p < nrows M \<Longrightarrow> q < ncols M \<Longrightarrow>
   set_block r0 c0 B M ! p ! q =
     (if r0 \<le> p \<and> p < r0 + nrows B \<and> c0 \<le> q \<and> q < c0 + ncols B
      then B ! (p - r0) ! (q - c0) else M ! p ! q)"
  by (simp add: set_block_def nth_mk)

lemma nrows_add_block [simp]: "nrows (add_block r0 c0 B M) = nrows M"
  by (simp add: add_block_def nrows_mk)

lemma ncols_add_block [simp]: "ncols (add_block r0 c0 B M) = ncols M"
  by (simp add: add_block_def ncols_mk ncols_nrows0)

lemma nth_add_block:
  "p < nrows M \<Longrightarrow> q < ncols M \<Longrightarrow>
   add_block r0 c0 B M ! p ! q =
     (if r0 \<le> p \<and> p < r0 + nrows B \<and> c0 \<le> q \<and> q < c0 + ncols B
      then M ! p ! q + B ! (p - r0) ! (q - c0) else M ! p ! q)"
  by (simp add: add_block_def nth_mk)

lemma nrows_replicate [simp]: "nrows (replicate k v) = k"
  by (simp add: nrows_def)

lemma ncols_replicate [simp]: "ncols (replicate k v) = (if k = 0 then 0 else length v)"
  by (cases k) (simp_all add: ncols_def)

lemma nrows_zeros [simp]: "nrows (zeros r c) = r"
  by (simp add: zeros_def nrows_mk)

lemma ncols_zeros [simp]: "ncols (zeros r c) = (if r = 0 then 0 else c)"
  by (simp add: zeros_def ncols_mk)

lemma nth_zeros: "p < r \<Longrightarrow> q < c \<Longrightarrow> zeros r c ! p ! q = 0"
  by (simp add: zeros_def nth_mk)

subsection \<open>Python indexing\<close>

lemma py_index_Inr:
  "- int (length xs) \<le> i \<Longrightarrow> i < int (length xs) \<Longrightarrow>
   py_index xs i = Inr (xs ! nat (if i < 0 then int (length xs) + i else i))"
  by (simp add: py_index_def Let_def)

lemma py_index_Inl:
  "i < - int (length xs) \<or> int (length xs) \<le> i \<Longrightarrow> py_index xs i = Inl IndexError"
  by (auto simp: py_index_def Let_def)

subsection \<open>Amplitudes\<close>

lemma length_concat_rect: "rect r c X \<Longrightarrow> length (concat X) = r * c"
  by (induction X arbitrary: r) (auto simp: rect_def)

lemma concat_nth_rect:
  "rect r c X \<Longrightarrow> i < r \<Longrightarrow> j < c \<Longrightarrow> concat X ! (i * c + j) = X ! i ! j"
proof (induction X arbitrary: r i)
  case Nil
  then show ?case by (simp add: rect_def)
next
  case (Cons row X)
  then obtain r' where r: "r = Suc r'" "rect r' c X" "length row = c"
    by (cases r) (auto simp: rect_def)
  show ?case
  proof (cases i)
    case 0
    then show ?thesis using Cons.prems r by (simp add: nth_append)
  next
    case (Suc i')
    then have "i' < r'" using Cons.prems r by simp
    from Cons.IH [OF r(2) this Cons.prems(3)] show ?thesis
      using Suc r by (simp add: nth_append)
  qed
qed

lemma reshape_concat_rect:
  assumes X: "rect r c X"
  shows "reshape r c (concat X) = X"
proof -
  have "reshape r c (concat X) = mk r c (\<lambda>i j. X ! i ! j)"
    unfolding reshape_def by (rule mk_cong) (simp add: concat_nth_rect [OF X])
  with rect_eq_mk [OF X] show ?thesis by simp
qed

lemma np_binop_zero:
  assumes X: "rect r c X" and f: "\<And>v. f v 0 = v"
  shows "np_binop f (Array X) (Array (zeros r c)) = Inr (Array X)"
proof -
  have nc: "ncols (zeros r c) = ncols X"
  proof (cases r)
    case 0
    then have "X = []" using X by (simp add: rect_def)
    then have "ncols X = 0" by (simp add: ncols_def)
    then show ?thesis using 0 by simp
  next
    case (Suc n)
    then show ?thesis using X by (simp add: rect_ncols)
  qed
  have "mk r (ncols X)
          (\<lambda>i j. f (X ! (if r = 1 then 0 else i) ! (if ncols X = 1 then 0 else j))
                    (zeros r c ! (if r = 1 then 0 else i) ! (if ncols X = 1 then 0 else j)))
        = mk r (ncols X) (\<lambda>i j. X ! i ! j)"
  proof (rule mk_cong)
    fix i j assume ij: "i < r" "j < ncols X"
    then have c: "ncols X = c" using X by (simp add: rect_ncols)
    have i: "(if r = 1 then 0 else i) = i" using ij by simp
    have j: "(if ncols X = 1 then 0 else j) = j" using ij by simp
    show "f (X ! (if r = 1 then 0 else i) ! (if ncols X = 1 then 0 else j))
            (zeros r c ! (if r = 1 then 0 else i) ! (if ncols X = 1 then 0 else j)) = X ! i ! j"
      unfolding i j using ij c by (simp add: nth_zeros f)
  qed
  also have "\<dots> = X"
  proof (cases r)
    case 0
    then show ?thesis using X by (simp add: rect_def mk_def)
  next
    case (Suc n)
    then have "ncols X = c" using X by (simp add: rect_ncols)
    then show ?thesis using rect_eq_mk [OF X] by simp
  qed
  finally show ?thesis
    using X nc by (simp add: Let_def rect_nrows)
qed

lemma np_reshape_rect: "np_reshape r c s = Inr m \<Longrightarrow> rect r c m"
  by (cases s) (auto simp: reshape_def rect_mk split: if_splits)

lemma xpy_of_rect:
  assumes "xpy_of E x_y = Inr xpy" "0 < nocc E"
  shows "rect (nvir E) (nocc E) xpy"
proof -
  from assms(1) obtain s m where m: "np_reshape (nocc E) (nvir E) s = Inr m" and x: "xpy = mT m"
    by (auto simp: xpy_of_def split: sum.splits)
  from m have "rect (nocc E) (nvir E) m" by (rule np_reshape_rect)
  with assms(2) x show ?thesis by (simp add: mT_rect rect_mk)
qed

lemma xmy_of_rect:
  assumes "xmy_of E x_y = Inr xmy" "0 < nocc E"
  shows "rect (nvir E) (nocc E) xmy"
proof -
  from assms(1) obtain s m where m: "np_reshape (nocc E) (nvir E) s = Inr m" and x: "xmy = mT m"
    by (auto simp: xmy_of_def split: sum.splits)
  from m have "rect (nocc E) (nvir E) m" by (rule np_reshape_rect)
  with assms(2) x show ?thesis by (simp add: mT_rect rect_mk)
qed

lemma np_binop_rect:
  assumes X: "rect r c X" and Y: "rect r c Y" and r: "0 < r"
  shows "np_binop f (Array X) (Array Y) = Inr (Array (mk r c (\<lambda>i j. f (X ! i ! j) (Y ! i ! j))))"
proof -
  have nc: "ncols X = c" "ncols Y = c" using X Y r by (simp_all add: rect_ncols)
  have "mk r c (\<lambda>i j. f (X ! (if r = 1 then 0 else i) ! (if c = 1 then 0 else j))
                        (Y ! (if r = 1 then 0 else i) ! (if c = 1 then 0 else j)))
        = mk r c (\<lambda>i j. f (X ! i ! j) (Y ! i ! j))"
  proof (rule mk_cong)
    fix i j assume ij: "i < r" "j < c"
    have i: "(if r = 1 then 0 else i) = i" using ij by simp
    have j: "(if c = 1 then 0 else j) = j" using ij by simp
    show "f (X ! (if r = 1 then 0 else i) ! (if c = 1 then 0 else j))
            (Y ! (if r = 1 then 0 else i) ! (if c = 1 then 0 else j)) = f (X ! i ! j) (Y ! i ! j)"
      unfolding i j ..
  qed
  then show ?thesis using X Y nc by (simp add: Let_def rect_nrows)
qed

lemma amplitude_rect:
  assumes X: "rect r c X" and Y: "rect r c Y" and r: "0 < r"
  shows "(case np_binop f (Array X) (Array Y) of Inl e \<Rightarrow> Inl e
          | Inr s \<Rightarrow> (case np_reshape r c s of Inl e \<Rightarrow> Inl e | Inr m \<Rightarrow> Inr (mT m)))
         = Inr (mk c r (\<lambda>a i. f (X ! i ! a) (Y ! i ! a)))"
proof -
  let ?S = "mk r c (\<lambda>i j. f (X ! i ! j) (Y ! i ! j))"
  have S: "rect r c ?S" by (rule rect_mk)
  have "np_reshape r c (Array ?S) = Inr ?S"
    using S by (simp add: length_concat_rect reshape_concat_rect)
  moreover have "mT ?S = mk c r (\<lambda>a i. f (X ! i ! a) (Y ! i ! a))"
    unfolding mT_rect [OF S r] by (rule mk_cong) (simp add: nth_mk)
  ultimately show ?thesis
    unfolding np_binop_rect [OF X Y r] by (simp del: np_reshape.simps)
qed

lemma xpy_of_arrays:
  assumes "rect (nocc E) (nvir E) X" "rect (nocc E) (nvir E) Y" "0 < nocc E"
  shows "xpy_of E (Array X, Array Y) = Inr (mk (nvir E) (nocc E) (\<lambda>a i. X ! i ! a + Y ! i ! a))"
  unfolding xpy_of_def fst_conv snd_conv by (rule amplitude_rect [OF assms])

lemma xmy_of_arrays:
  assumes "rect (nocc E) (nvir E) X" "rect (nocc E) (nvir E) Y" "0 < nocc E"
  shows "xmy_of E (Array X, Array Y) = Inr (mk (nvir E) (nocc E) (\<lambda>a i. X ! i ! a - Y ! i ! a))"
  unfolding xmy_of_def fst_conv snd_conv by (rule amplitude_rect [OF assms])

subsection \<open>Densities\<close>

lemma dvv_nth:
  assumes "rect nv no xpy" "rect nv no xmy" "a < nv" "b < nv"
  shows "dvv xpy xmy ! a ! b = (\<Sum>i<no. xpy ! a ! i * xpy ! b ! i + xmy ! a ! i * xmy ! b ! i)"
proof -
  from assms have nv: "0 < nv" by simp
  have "dvv xpy xmy =
        mk nv nv (\<lambda>a b. (\<Sum>i<no. xpy ! a ! i * xpy ! b ! i) + (\<Sum>i<no. xmy ! a ! i * xmy ! b ! i))"
    using assms(1,2) nv
    by (simp add: dvv_def einsum_ai_bi_ab_def rect_nrows rect_ncols madd_mk sumto_sum)
  then show ?thesis using assms(3,4) by (simp add: nth_mk sum.distrib)
qed

lemma doo_nth:
  assumes "rect nv no xpy" "rect nv no xmy" "0 < nv" "i < no" "j < no"
  shows "doo xpy xmy ! i ! j =
         - (\<Sum>a<nv. xpy ! a ! i * xpy ! a ! j) - (\<Sum>a<nv. xmy ! a ! i * xmy ! a ! j)"
proof -
  have "doo xpy xmy =
        mk no no (\<lambda>i j. - (\<Sum>a<nv. xpy ! a ! i * xpy ! a ! j) - (\<Sum>a<nv. xmy ! a ! i * xmy ! a ! j))"
    using assms(1,2,3)
    by (simp add: doo_def einsum_ai_aj_ij_def rect_nrows rect_ncols mneg_mk msub_mk sumto_sum)
  then show ?thesis using assms(4,5) by (simp add: nth_mk)
qed

lemma dvv_rect: "rect nv no xpy \<Longrightarrow> rect nv no xmy \<Longrightarrow> rect nv nv (dvv xpy xmy)"
  by (simp add: dvv_def einsum_ai_bi_ab_def rect_nrows madd_mk rect_mk)

lemma doo_rect: "rect nv no xpy \<Longrightarrow> rect nv no xmy \<Longrightarrow> 0 < nv \<Longrightarrow> rect no no (doo xpy xmy)"
  by (simp add: doo_def einsum_ai_aj_ij_def rect_nrows rect_ncols mneg_mk msub_mk rect_mk)

lemma ncols_pos_nrows: "0 < ncols A \<Longrightarrow> 0 < nrows A"
  by (cases A) (simp_all add: ncols_def nrows_def)

lemma wf_mo_nao: "wf_mo E \<Longrightarrow> 0 < nao E"
  unfolding wf_mo_def nao_def nmo_def by (intro ncols_pos_nrows) simp

lemma wf_mo_nvir: "wf_mo E \<Longrightarrow> 0 < nvir E \<and> nocc E + nvir E = nmo E"
  by (auto simp: wf_mo_def nvir_def)

lemma orbo_rect: "wf_mo E \<Longrightarrow> rect (nao E) (nocc E) (orbo E)"
  unfolding orbo_def wf_mo_def by (auto intro: rect_map_take)

lemma orbv_rect: "wf_mo E \<Longrightarrow> rect (nao E) (nvir E) (orbv E)"
  unfolding orbv_def wf_mo_def nvir_def by (auto intro: rect_map_drop)

lemma mT_orbo: "wf_mo E \<Longrightarrow> mT (orbo E) = mk (nocc E) (nao E) (\<lambda>i p. orbo E ! p ! i)"
  using orbo_rect [of E] wf_mo_nao [of E] by (simp add: mT_rect)

lemma mT_orbv: "wf_mo E \<Longrightarrow> mT (orbv E) = mk (nvir E) (nao E) (\<lambda>a p. orbv E ! p ! a)"
  using orbv_rect [of E] wf_mo_nao [of E] by (simp add: mT_rect)

lemma dmz_nth:
  assumes wf: "wf_mo E" and X: "rect (nvir E) (nocc E) X" and pq: "p < nao E" "q < nao E"
  shows "dot3 (orbv E) X (mT (orbo E)) ! p ! q =
         (\<Sum>i<nocc E. (\<Sum>a<nvir E. orbv E ! p ! a * X ! a ! i) * orbo E ! q ! i)"
proof -
  have "dot3 (orbv E) X (mT (orbo E)) =
        mk (nao E) (nao E)
          (\<lambda>p q. \<Sum>i<nocc E. (\<Sum>a<nvir E. orbv E ! p ! a * X ! a ! i) * mT (orbo E) ! i ! q)"
    using wf X wf_mo_nao [OF wf] wf_mo_nvir [OF wf] orbv_rect [OF wf]
    by (intro dot3_rect) (auto simp: mT_orbo rect_mk wf_mo_def)
  then show ?thesis using pq by (simp add: nth_mk mT_orbo [OF wf])
qed

lemma dmzoo_nth:
  assumes wf: "wf_mo E" and X: "rect (nvir E) (nocc E) xpy" "rect (nvir E) (nocc E) xmy"
    and pq: "p < nao E" "q < nao E"
  shows "dmzoo E xpy xmy ! p ! q =
         (\<Sum>j<nocc E. (\<Sum>i<nocc E. orbo E ! p ! i * doo xpy xmy ! i ! j) * orbo E ! q ! j)
       + (\<Sum>b<nvir E. (\<Sum>a<nvir E. orbv E ! p ! a * dvv xpy xmy ! a ! b) * orbv E ! q ! b)"
proof -
  note nv = wf_mo_nvir [OF wf] and na = wf_mo_nao [OF wf]
  have no: "0 < nocc E" using wf by (simp add: wf_mo_def)
  have 1: "dot3 (orbo E) (doo xpy xmy) (mT (orbo E)) =
        mk (nao E) (nao E)
          (\<lambda>p q. \<Sum>j<nocc E. (\<Sum>i<nocc E. orbo E ! p ! i * doo xpy xmy ! i ! j) * mT (orbo E) ! j ! q)"
    using orbo_rect [OF wf] doo_rect [OF X] nv na no
    by (intro dot3_rect) (auto simp: mT_orbo [OF wf] rect_mk)
  have 2: "dot3 (orbv E) (dvv xpy xmy) (mT (orbv E)) =
        mk (nao E) (nao E)
          (\<lambda>p q. \<Sum>b<nvir E. (\<Sum>a<nvir E. orbv E ! p ! a * dvv xpy xmy ! a ! b) * mT (orbv E) ! b ! q)"
    using orbv_rect [OF wf] dvv_rect [OF X] nv na
    by (intro dot3_rect) (auto simp: mT_orbv [OF wf] rect_mk)
  show ?thesis unfolding dmzoo_def 1 2 using pq
    by (simp add: madd_mk nth_mk mT_orbo [OF wf] mT_orbv [OF wf])
qed

subsection \<open>The energy weighting\<close>

lemma zeta_nth:
  assumes "length (mo_energy E) = nmo E" "nocc E \<le> nmo E" "p < nmo E" "q < nmo E"
  shows "zeta E ! p ! q =
     (if (p < nocc E) = (q < nocc E) then (mo_energy E ! p + mo_energy E ! q) * 0.5
      else mo_energy E ! q)"
  using assms
  by (auto simp: zeta_def Let_def nth_set_block nrows_mk ncols_mk nth_mk)

lemma dm1_nth:
  assumes wf: "wf_mo E" and X: "rect (nvir E) (nocc E) xpy" "rect (nvir E) (nocc E) xmy"
    and Z: "rect (nvir E) (nocc E) z1" and pq: "p < nmo E" "q < nmo E"
  shows "dm1 E xpy xmy z1 ! p ! q =
     (if p < nocc E \<and> q < nocc E then doo xpy xmy ! p ! q + (if p = q then 2 else 0)
      else if nocc E \<le> p \<and> nocc E \<le> q then dvv xpy xmy ! (p - nocc E) ! (q - nocc E)
      else if nocc E \<le> p \<and> q < nocc E then z1 ! (p - nocc E) ! q
      else 0)"
proof -
  note nv = wf_mo_nvir [OF wf]
  have no: "0 < nocc E" using wf by (simp add: wf_mo_def)
  have d: "nrows (doo xpy xmy) = nocc E" "ncols (doo xpy xmy) = nocc E"
    using doo_rect [OF X] nv no by (simp_all add: rect_nrows rect_ncols)
  have v: "nrows (dvv xpy xmy) = nvir E" "ncols (dvv xpy xmy) = nvir E"
    using dvv_rect [OF X] nv by (simp_all add: rect_nrows rect_ncols)
  have z: "nrows z1 = nvir E" "ncols z1 = nocc E"
    using Z nv by (simp_all add: rect_nrows rect_ncols)
  have e: "nrows (smul (eye (nocc E)) 2) = nocc E" "ncols (smul (eye (nocc E)) 2) = nocc E"
    using no by (simp_all add: eye_def smul_mk nrows_mk ncols_mk)
  have e2: "p < nocc E \<Longrightarrow> q < nocc E \<Longrightarrow> smul (eye (nocc E)) 2 ! p ! q = (if p = q then 2 else 0)"
    by (simp add: eye_def smul_mk nth_mk)
  show ?thesis
    using pq nv
    by (auto simp: dm1_def Let_def nth_add_block nth_set_block d v z e e2 nth_zeros)
qed

subsection \<open>The loop over the atoms and the driver\<close>

lemma de_loop_rect: "de_loop E s xpy xmy z1 l = Inr d \<Longrightarrow> rect (length l) 3 d"
proof (induction l arbitrary: d)
  case Nil
  then show ?case by (simp add: rect_def)
next
  case (Cons ia l)
  then obtain rows p0 p1 where r: "de_loop E s xpy xmy z1 l = Inr rows"
      and d: "d = de_atom E s xpy xmy z1 ia p0 p1 # rows"
    by (auto split: sum.splits prod.splits)
  from Cons.IH [OF r] d show ?case by (simp add: rect_def de_atom_def)
qed

lemma de_loop_returns: "valid_atoms E l \<Longrightarrow> \<exists>d. de_loop E s xpy xmy z1 l = Inr d"
proof (induction l)
  case Nil
  then show ?case by simp
next
  case (Cons ia l)
  then obtain d where d: "de_loop E s xpy xmy z1 l = Inr d"
    by (auto simp: valid_atoms_def)
  from Cons.prems obtain t where "py_index (offset_nr_by_atom E) ia = Inr t"
    using py_index_Inr [of "offset_nr_by_atom E" ia] by (auto simp: valid_atoms_def)
  with d show ?case by (auto split: prod.splits)
qed

lemma Gradients_kernel_trace:
  "trace (snd (Gradients_kernel E self xy state singlet atmlst)) =
   trace self @ trace (snd (Gradients_kernel E fresh xy state singlet atmlst))"
  by (auto simp: Gradients_kernel_def fresh_def Let_def split: sum.splits option.splits)

lemma Gradients_kernel_fst:
  "fst (Gradients_kernel E self' xy state singlet atmlst) =
   fst (Gradients_kernel E self xy state singlet atmlst)"
  by (auto simp: Gradients_kernel_def Let_def split: sum.splits option.splits)

lemma zeroJ_simps [simp]:
  "mo_coeff (zeroJ E) = mo_coeff E" "mo_occ (zeroJ E) = mo_occ E"
  "snd (get_jk (zeroJ E) h dm) = snd (get_jk E h dm)"
  "fst (get_jk (zeroJ E) h dm) = smul (fst (get_jk E h dm)) 0"
  by (simp_all add: zeroJ_def)

lemma zeroJ_dmz [simp]:
  "dmzvop (zeroJ E) xpy = dmzvop E xpy" "dmzvom (zeroJ E) xmy = dmzvom E xmy"
  by (simp_all add: dmzvop_def dmzvom_def orbv_def orbo_def nocc_def)

lemma dmzvom_get_jk [simp]: "dmzvom (E\<lparr>get_jk := jk\<rparr>) xmy = dmzvom E xmy"
  by (simp add: dmzvom_def orbv_def orbo_def nocc_def)

section \<open>The two-orbital example, evaluated\<close>

lemmas ev = nrows_def ncols_def mk_def sumto_def madd_def msub_def mneg_def smul_def mmul_def
  mT_def dot_def dot3_def slice_def cslice_def zeros_def eye_def set_block_def add_block_def
  einsum_ai_bi_ab_def einsum_ai_aj_ij_def einsum_ki_ai_ak_def einsum_ac_ai_ci_def
  einsum_ak_ai_ki_def einsum_ci_ai_ac_def einsum_pq_pq_def einsum_qp_pq_def reshape_def
  blk_oo_def blk_vv_def blk_vo_def tsub_def tsmul_def tneg_def add_rows_def add_cols_T_def
  upt_conv_Cons Let_def

lemma Eg_fields:
  "mo_coeff (Eg g) = [[0, 1], [1, 0]]"
  "mo_energy (Eg g) = [-1, 1]" "mo_occ (Eg g) = [2, 0]" "natm (Eg g) = 2"
  "offset_nr_by_atom (Eg g) = [(0, 1, 0, 1), (1, 2, 1, 2)]"
  "get_jk (Eg g) h D =
     ([[g * D ! 1 ! 1, 0], [0, g * D ! 0 ! 0]], [[0, D ! 0 ! 1], [D ! 1 ! 0, 0]])"
  "hcore_generator (Eg g) ia = [[[1, 0], [0, 0]], [[0, 1], [1, 0]], [[0, 0], [0, 1]]]"
  "get_ovlp (Eg g) = [[[1, 2], [3, 4]], [[0, 1], [1, 0]], [[1, 0], [0, 1]]]"
  "grad_get_jk (Eg g) D = ([D, smul D 2, smul D 3], [mT D, D, zeros 2 2])"
  "grad_nuc (Eg g) l = map (\<lambda>ia. [0, 0, real_of_int ia]) l"
  "td_xy (Eg g) = [(Array [[1]], Scalar 0), (Array [[3]], Array [[1]])]"
  "td_singlet (Eg g) = True"
  by (simp_all add: Eg_def)

lemma Eg_dims: "nao (Eg g) = 2" "nmo (Eg g) = 2" "nocc (Eg g) = 1" "nvir (Eg g) = 1"
  by (simp_all add: nao_def nmo_def nocc_def nvir_def Eg_fields nrows_def ncols_def)

lemma Eg_wf: "wf_mo (Eg g)"
  by (simp add: wf_mo_def Eg_dims) (simp add: Eg_fields rect_def)

lemma Eg_xpy:
  "xpy_of (Eg g) (Array [[x]], Array [[y]]) = Inr [[x + y]]"
  "xpy_of (Eg g) (Array [[x]], Scalar y) = Inr [[x + y]]"
  by (simp_all add: xpy_of_def Eg_dims ev)

lemma Eg_xmy:
  "xmy_of (Eg g) (Array [[x]], Array [[y]]) = Inr [[x - y]]"
  "xmy_of (Eg g) (Array [[x]], Scalar y) = Inr [[x - y]]"
  by (simp_all add: xmy_of_def Eg_dims ev)

lemma Eg_orb: "orbv (Eg g) = [[1], [0]]" "orbo (Eg g) = [[0], [1]]"
  by (simp_all add: orbv_def orbo_def Eg_dims Eg_fields)

lemma Eg_dens: "dvv [[a]] [[b]] = [[a * a + b * b]]" "doo [[a]] [[b]] = [[- (a * a) - b * b]]"
  by (simp_all add: dvv_def doo_def ev)

lemma Eg_dmz:
  "dmzvop (Eg g) [[a]] = [[0, a], [0, 0]]" "dmzvom (Eg g) [[b]] = [[0, b], [0, 0]]"
  "dmzoo (Eg g) [[a]] [[b]] = [[a * a + b * b, 0], [0, - (a * a) - b * b]]"
  by (simp_all add: dmzvop_def dmzvom_def dmzoo_def Eg_orb Eg_dens) (simp_all add: ev)

lemma Eg_veff0doo:
  "veff0doo (Eg g) [[a]] [[b]] =
     [[- (2 * g * (a * a + b * b)), 0], [0, 2 * g * (a * a + b * b)]]"
  by (simp add: veff0doo_def Eg_dmz Eg_fields) (simp add: ev algebra_simps)

lemma Eg_veff0mop: "veff0mop (Eg g) s [[a]] = [[0, - a], [- a, 0]]"
  by (simp add: veff0mop_def Eg_dmz Eg_fields) (simp add: ev)

lemma Eg_veff0mom: "veff0mom (Eg g) [[b]] = [[0, b], [- b, 0]]"
  by (simp add: veff0mom_def Eg_dmz Eg_fields) (simp add: ev)

lemma Eg_wvo: "wvo (Eg g) s [[a]] [[b]] = [[0]]"
  by (simp add: wvo_def Eg_veff0doo Eg_veff0mop Eg_veff0mom Eg_orb Eg_dims) (simp add: ev)

lemma Eg_z1: "z1_of (Eg g) s [[a]] [[b]] = Inr [[0]]"
  by (simp add: z1_of_def Eg_wvo Eg_dims) (simp add: Eg_def solve1_def reshape_def mk_def)

lemma Eg_z1ao: "z1ao (Eg g) [[0]] = [[0, 0], [0, 0]]"
  by (simp add: z1ao_def Eg_orb ev)

lemma Eg_veff_z1: "veff_z1 (Eg g) [[0]] = [[0, 0], [0, 0]]"
  by (simp add: veff_z1_def Eg_z1ao Eg_fields ev)

lemma Eg_im0_mo:
  "im0_mo (Eg g) s [[a]] [[b]] [[0]] =
     [[2 * g * (a * a + b * b) - a * a - b * b, 0], [0, - (a * a) - b * b]]"
  by (simp add: im0_mo_def Eg_veff0doo Eg_veff0mop Eg_veff0mom Eg_veff_z1 Eg_orb Eg_dims ev)

lemma Eg_zeta: "zeta (Eg g) = [[- 1, 1], [- 1, 1]]"
  by (simp add: zeta_def Eg_dims Eg_fields ev)

lemma Eg_dm1: "dm1 (Eg g) [[a]] [[b]] [[0]] = [[- (a * a) - b * b + 2, 0], [0, a * a + b * b]]"
  by (simp add: dm1_def Eg_dens Eg_dims ev)

lemma Eg_im0_ao:
  "im0_ao (Eg g) s [[a]] [[b]] [[0]] = [[0, 0], [0, 2 * g * (a * a + b * b) - 2]]"
  by (simp add: im0_ao_def Eg_im0_mo Eg_zeta Eg_dm1 Eg_fields ev)

lemma Eg_dmz1doo:
  "dmz1doo (Eg g) [[a]] [[b]] [[0]] = [[a * a + b * b, 0], [0, - (a * a) - b * b]]"
  by (simp add: dmz1doo_def Eg_z1ao Eg_dmz ev)

lemma Eg_oo0: "oo0 (Eg g) = [[0, 0], [0, 1]]"
  by (simp add: oo0_def Eg_orb ev)

lemma Eg_grad_dms:
  "grad_dms (Eg g) [[a]] [[b]] [[0]] =
     [[[0, 0], [0, 1]],
      [[2 * (a * a) + 2 * (b * b), 0], [0, - (2 * (a * a)) - 2 * (b * b)]],
      [[0, a], [a, 0]], [[0, b], [- b, 0]]]"
  by (simp add: grad_dms_def Eg_dmz1doo Eg_oo0 Eg_dmz ev)

lemma Eg_vhf1_T:
  "vhf1 (Eg g) True [[a]] [[b]] [[0]] =
    [[[[0, 0], [0, 1]], [[0, 0], [0, 3]], [[0, 0], [0, 6]]],
     [[[2 * (a * a) + 2 * (b * b), 0], [0, - (2 * (a * a)) - 2 * (b * b)]],
      [[6 * (a * a) + 6 * (b * b), 0], [0, - (6 * (a * a)) - 6 * (b * b)]],
      [[12 * (a * a) + 12 * (b * b), 0], [0, - (12 * (a * a)) - 12 * (b * b)]]],
     [[[0, a], [a, 0]], [[0, 3 * a], [3 * a, 0]], [[0, 6 * a], [6 * a, 0]]],
     [[[0, 3 * b], [- (3 * b), 0]], [[0, 3 * b], [- (3 * b), 0]],
      [[0, 6 * b], [- (6 * b), 0]]]]"
  by (simp add: vhf1_def Eg_grad_dms Eg_fields ev)

lemma Eg_vhf1_F:
  "vhf1 (Eg g) False [[a]] [[b]] [[0]] =
    [[[[0, 0], [0, 1]], [[0, 0], [0, 3]], [[0, 0], [0, 6]]],
     [[[2 * (a * a) + 2 * (b * b), 0], [0, - (2 * (a * a)) - 2 * (b * b)]],
      [[6 * (a * a) + 6 * (b * b), 0], [0, - (6 * (a * a)) - 6 * (b * b)]],
      [[12 * (a * a) + 12 * (b * b), 0], [0, - (12 * (a * a)) - 12 * (b * b)]]],
     [[[0, - a], [- a, 0]], [[0, - a], [- a, 0]], [[0, 0], [0, 0]]],
     [[[0, b], [- b, 0]], [[0, - b], [b, 0]], [[0, 0], [0, 0]]]]"
  by (simp add: vhf1_def Eg_grad_dms Eg_fields ev)

lemma Eg_de_T0:
  "de_atom (Eg g) True [[a]] [[b]] [[0]] ia 0 1 =
     [7 * (b * b) + 3 * (a * a), 6 * (a * a) + 6 * (b * b), 11 * (b * b) + (11 * (a * a) + 2)]"
  by (simp add: de_atom_def Eg_vhf1_T Eg_fields Eg_im0_ao Eg_oo0 Eg_dmz1doo Eg_dmz ev)

lemma Eg_de_T1:
  "de_atom (Eg g) True [[a]] [[b]] [[0]] ia 1 2 =
     [3 * (b * b) + (20 + (- (16 * (g * (a * a + b * b))) - a * a)),
      12 - 6 * (a * a) - 6 * (b * b),
      30 + (- (4 * (g * (a * a + b * b))) - 13 * (a * a)) - 13 * (b * b)]"
  by (simp add: de_atom_def Eg_vhf1_T Eg_fields Eg_im0_ao Eg_oo0 Eg_dmz1doo Eg_dmz ev)

lemma Eg_de_F0:
  "de_atom (Eg g) False [[a]] [[b]] [[0]] ia 0 1 =
     [3 * (b * b) - a * a, - (a * a * 2) - b * b * 2, 2 + (- (a * a) - b * b)]"
  by (simp add: de_atom_def Eg_vhf1_F Eg_fields Eg_im0_ao Eg_oo0 Eg_dmz1doo Eg_dmz ev)

lemma Eg_de_F1:
  "de_atom (Eg g) False [[a]] [[b]] [[0]] ia 1 2 =
     [20 + (- (16 * (g * (a * a + b * b))) - 5 * (a * a)) - b * b,
      12 - 14 * (a * a) - 14 * (b * b),
      30 + (- (25 * (b * b)) - 4 * (g * (a * a + b * b))) - 25 * (a * a)]"
  by (simp add: de_atom_def Eg_vhf1_F Eg_fields Eg_im0_ao Eg_oo0 Eg_dmz1doo Eg_dmz ev)

lemma Eg_atoms: "map int [0..<natm (Eg g)] = [0, 1]" "valid_atoms (Eg g) [0, 1]"
  by (simp_all add: Eg_fields valid_atoms_def upt_conv_Cons)

lemma Eg_loop_T:
  "de_loop (Eg g) True [[a]] [[b]] [[0]] [0, 1] =
     Inr [[7 * (b * b) + 3 * (a * a), 6 * (a * a) + 6 * (b * b), 11 * (b * b) + (11 * (a * a) + 2)],
          [3 * (b * b) + (20 + (- (16 * (g * (a * a + b * b))) - a * a)),
           12 - 6 * (a * a) - 6 * (b * b),
           30 + (- (4 * (g * (a * a + b * b))) - 13 * (a * a)) - 13 * (b * b)]]"
  by (simp add: Eg_fields py_index_def Eg_de_T0 [unfolded One_nat_def] Eg_de_T1 [unfolded One_nat_def])

lemma Eg_loop_F:
  "de_loop (Eg g) False [[a]] [[b]] [[0]] [0, 1] =
     Inr [[3 * (b * b) - a * a, - (a * a * 2) - b * b * 2, 2 + (- (a * a) - b * b)],
          [20 + (- (16 * (g * (a * a + b * b))) - 5 * (a * a)) - b * b,
           12 - 14 * (a * a) - 14 * (b * b),
           30 + (- (25 * (b * b)) - 4 * (g * (a * a + b * b))) - 25 * (a * a)]]"
  by (simp add: Eg_fields py_index_def Eg_de_F0 [unfolded One_nat_def] Eg_de_F1 [unfolded One_nat_def])

lemma Eg_kernel_first: "kernel (Eg 1) (Array [[1]], Scalar 0) True None = Inr [[10, 12, 24], [- 10, 0, - 4]]"
  by (simp add: kernel_def Eg_xpy Eg_xmy Eg_z1 Eg_atoms Eg_loop_T del: de_loop.simps)

lemma Eg_kernel_second: "kernel (Eg 1) (Array [[3]], Array [[1]]) True None = Inr [[76, 120, 222], [- 304, - 108, - 310]]"
  by (simp add: kernel_def Eg_xpy Eg_xmy Eg_z1 Eg_atoms Eg_loop_T del: de_loop.simps)

lemma Eg_kernel_triplet:
  "kernel (Eg g) (Array [[3]], Array [[1]]) False None =
     Inr [[- 4, - 40, - 18], [- 64 - 320 * g, - 268, - 470 - 80 * g]]"
  by (simp add: kernel_def Eg_xpy Eg_xmy Eg_z1 Eg_atoms Eg_loop_F del: de_loop.simps)

lemma zeroJ_Eg: "zeroJ (Eg g) = Eg 0"
  by (simp add: zeroJ_def Eg_def smul_def)

lemma Eg_kernel_atoms: "kernel (Eg g) xy s (Some [0, 1]) = kernel (Eg g) xy s None"
  by (auto simp: kernel_def Eg_atoms split: sum.splits)

lemma Eg_lookup:
  "py_index (td_xy (Eg g)) 0 = Inr (Array [[1]], Scalar 0)"
  "py_index (td_xy (Eg g)) 1 = Inr (Array [[3]], Array [[1]])"
  "py_index (td_xy (Eg g)) (- 2) = Inr (Array [[1]], Scalar 0)"
  by (simp_all add: Eg_fields py_index_def)

lemma Eg_driver:
  assumes "state \<noteq> 0" and "kernel (Eg g) p True None = Inr d"
  shows "fst (Gradients_kernel (Eg g) self (Some p) state None None) =
         Inr (madd d (grad_nuc (Eg g) [0, 1]))"
  using assms
  by (simp add: Gradients_kernel_def grad_elec_def Eg_atoms Eg_kernel_atoms Let_def
        Eg_fields(12))

lemma Gradients_kernel_de:
  "de (snd (Gradients_kernel E (snd (Gradients_kernel E self xy state singlet atmlst))
        xy state singlet atmlst))
   = de (snd (Gradients_kernel E self xy state singlet atmlst))"
  by (auto simp: Gradients_kernel_def Let_def split: sum.splits option.splits)

lemma density_entries:
  assumes "wf_mo E" and "xpy_of E x_y = Inr xpy" and "xmy_of E x_y = Inr xmy"
    and "a < nvir E" "b < nvir E" "i < nocc E" "j < nocc E" "p < nao E" "q < nao E"
  shows
    "dvv xpy xmy ! a ! b = (\<Sum>i<nocc E. xpy ! a ! i * xpy ! b ! i + xmy ! a ! i * xmy ! b ! i)
   \<and> doo xpy xmy ! i ! j =
       - (\<Sum>a<nvir E. xpy ! a ! i * xpy ! a ! j) - (\<Sum>a<nvir E. xmy ! a ! i * xmy ! a ! j)
   \<and> dmzvop E xpy ! p ! q =
       (\<Sum>i<nocc E. (\<Sum>a<nvir E. orbv E ! p ! a * xpy ! a ! i) * orbo E ! q ! i)
   \<and> dmzvom E xmy ! p ! q =
       (\<Sum>i<nocc E. (\<Sum>a<nvir E. orbv E ! p ! a * xmy ! a ! i) * orbo E ! q ! i)
   \<and> dmzoo E xpy xmy ! p ! q =
       (\<Sum>j<nocc E. (\<Sum>i<nocc E. orbo E ! p ! i * doo xpy xmy ! i ! j) * orbo E ! q ! j)
     + (\<Sum>b<nvir E. (\<Sum>a<nvir E. orbv E ! p ! a * dvv xpy xmy ! a ! b) * orbv E ! q ! b)
   \<and> xpy_of (E\<lparr>td_singlet := s\<rparr>) x_y = Inr xpy \<and> xmy_of (E\<lparr>td_singlet := s\<rparr>) x_y = Inr xmy
   \<and> dmzvop (E\<lparr>td_singlet := s\<rparr>) xpy = dmzvop E xpy
   \<and> dmzvom (E\<lparr>td_singlet := s\<rparr>) xmy = dmzvom E xmy
   \<and> dmzoo (E\<lparr>td_singlet := s\<rparr>) xpy xmy = dmzoo E xpy xmy"
proof -
  have no: "0 < nocc E" using assms(1) by (simp add: wf_mo_def)
  note X = xpy_of_rect [OF assms(2) no] xmy_of_rect [OF assms(3) no]
  have nv: "0 < nvir E" using assms(4) by simp
  have 1: "dvv xpy xmy ! a ! b = (\<Sum>i<nocc E. xpy ! a ! i * xpy ! b ! i + xmy ! a ! i * xmy ! b ! i)"
    using X assms(4,5) by (rule dvv_nth)
  have 2: "doo xpy xmy ! i ! j =
       - (\<Sum>a<nvir E. xpy ! a ! i * xpy ! a ! j) - (\<Sum>a<nvir E. xmy ! a ! i * xmy ! a ! j)"
    using X nv assms(6,7) by (rule doo_nth)
  have 3: "dmzvop E xpy ! p ! q =
       (\<Sum>i<nocc E. (\<Sum>a<nvir E. orbv E ! p ! a * xpy ! a ! i) * orbo E ! q ! i)"
    unfolding dmzvop_def using assms(1) X(1) assms(8,9) by (rule dmz_nth)
  have 4: "dmzvom E xmy ! p ! q =
       (\<Sum>i<nocc E. (\<Sum>a<nvir E. orbv E ! p ! a * xmy ! a ! i) * orbo E ! q ! i)"
    unfolding dmzvom_def using assms(1) X(2) assms(8,9) by (rule dmz_nth)
  have 5: "dmzoo E xpy xmy ! p ! q =
       (\<Sum>j<nocc E. (\<Sum>i<nocc E. orbo E ! p ! i * doo xpy xmy ! i ! j) * orbo E ! q ! j)
     + (\<Sum>b<nvir E. (\<Sum>a<nvir E. orbv E ! p ! a * dvv xpy xmy ! a ! b) * orbv E ! q ! b)"
    using assms(1) X assms(8,9) by (rule dmzoo_nth)
  have n: "nocc (E\<lparr>td_singlet := s\<rparr>) = nocc E" "nvir (E\<lparr>td_singlet := s\<rparr>) = nvir E"
    by (simp_all add: nocc_def nvir_def nmo_def)
  have 6: "xpy_of (E\<lparr>td_singlet := s\<rparr>) x_y = Inr xpy" "xmy_of (E\<lparr>td_singlet := s\<rparr>) x_y = Inr xmy"
    using assms(2,3) unfolding xpy_of_def xmy_of_def n by simp_all
  have 7: "dmzvop (E\<lparr>td_singlet := s\<rparr>) xpy = dmzvop E xpy"
    "dmzvom (E\<lparr>td_singlet := s\<rparr>) xmy = dmzvom E xmy"
    "dmzoo (E\<lparr>td_singlet := s\<rparr>) xpy xmy = dmzoo E xpy xmy"
    by (simp_all add: dmzvop_def dmzvom_def dmzoo_def orbv_def orbo_def nocc_def)
  from 1 2 3 4 5 6 7 show ?thesis by blast
qed

section \<open>The claims\<close>

text \<open>
  C1, as amended.  In a triplet evaluation the Coulomb matrix is left out of the two
  coupling intermediates only: \<open>veff0mop\<close> and \<open>veff0mom\<close> are the same whether or not
  J is forced to zero.  \<open>veff0doo\<close> and the response function \<open>fvind\<close> are built as
  \<open>2J - K\<close> whatever the flag (the code comments the latter: for the singlet, closed-shell
  ground state).
\<close>

theorem triplet_coulomb:
  "veff0mop (zeroJ E) False xpy = veff0mop E False xpy
   \<and> veff0mom (zeroJ E) xmy = veff0mom E xmy
   \<and> veff0doo E xpy xmy =
       msub (smul (fst (get_jk E 0 (dmzoo E xpy xmy))) 2) (snd (get_jk E 0 (dmzoo E xpy xmy)))
   \<and> fvind E x =
       (let dm = dot3 (orbv E) (reshape (nvir E) (nocc E) x) (mT (orbo E))
        in concat (dot3 (mT (orbv E))
             (msub (smul (fst (get_jk E 1 (madd dm (mT dm)))) 2) (snd (get_jk E 1 (madd dm (mT dm)))))
             (orbo E)))"
  by (simp add: veff0mop_def veff0mom_def veff0doo_def fvind_def Let_def)

text \<open>
  C1 as stated fails.  In the two-orbital example with \<open>g = 1\<close>, triplet, X = 3 and
  Y = 1: the Z-vector is zero with and without J, so the Coulomb matrix enters through
  \<open>veff0doo\<close> alone, and forcing J to zero changes \<open>veff0doo\<close> and the gradient of the
  second atom.
\<close>

theorem triplet_coulomb_counterexample:
  "xpy_of (Eg 1) (Array [[3]], Array [[1]]) = Inr [[4]]
   \<and> xmy_of (Eg 1) (Array [[3]], Array [[1]]) = Inr [[2]]
   \<and> z1_of (Eg 1) False [[4]] [[2]] = Inr [[0]]
   \<and> z1_of (zeroJ (Eg 1)) False [[4]] [[2]] = Inr [[0]]
   \<and> veff0doo (Eg 1) [[4]] [[2]] = [[- 40, 0], [0, 40]]
   \<and> veff0doo (zeroJ (Eg 1)) [[4]] [[2]] = [[0, 0], [0, 0]]
   \<and> kernel (Eg 1) (Array [[3]], Array [[1]]) False None
        = Inr [[- 4, - 40, - 18], [- 384, - 268, - 550]]
   \<and> kernel (zeroJ (Eg 1)) (Array [[3]], Array [[1]]) False None
        = Inr [[- 4, - 40, - 18], [- 64, - 268, - 470]]
   \<and> kernel (zeroJ (Eg 1)) (Array [[3]], Array [[1]]) False None
        \<noteq> kernel (Eg 1) (Array [[3]], Array [[1]]) False None"
  by (simp add: zeroJ_Eg Eg_xpy Eg_xmy Eg_z1 Eg_veff0doo Eg_kernel_triplet)

text \<open>
  C2.  For every amplitude pair X, Y of shape occ by vir the kernel's \<open>xpy\<close> and \<open>xmy\<close> are
  the transposed sum and difference, and \<open>dvv\<close>, \<open>doo\<close> and the three AO densities have
  the entries of the specification's formulas.  None of them reads the singlet flag,
  neither the argument of the kernel (they do not take it) nor the solver's attribute.
\<close>

theorem density_assembler:
  assumes "wf_mo E" and "rect (nocc E) (nvir E) X" and "rect (nocc E) (nvir E) Y"
    and "a < nvir E" "b < nvir E" "i < nocc E" "j < nocc E" "p < nao E" "q < nao E"
  shows
    "\<exists>xpy xmy.
       xpy_of E (Array X, Array Y) = Inr xpy \<and> xmy_of E (Array X, Array Y) = Inr xmy
     \<and> xpy ! a ! i = X ! i ! a + Y ! i ! a \<and> xmy ! a ! i = X ! i ! a - Y ! i ! a
     \<and> dvv xpy xmy ! a ! b = (\<Sum>i<nocc E. xpy ! a ! i * xpy ! b ! i + xmy ! a ! i * xmy ! b ! i)
     \<and> doo xpy xmy ! i ! j =
         - (\<Sum>a<nvir E. xpy ! a ! i * xpy ! a ! j) - (\<Sum>a<nvir E. xmy ! a ! i * xmy ! a ! j)
     \<and> dmzvop E xpy ! p ! q =
         (\<Sum>i<nocc E. (\<Sum>a<nvir E. orbv E ! p ! a * xpy ! a ! i) * orbo E ! q ! i)
     \<and> dmzvom E xmy ! p ! q =
         (\<Sum>i<nocc E. (\<Sum>a<nvir E. orbv E ! p ! a * xmy ! a ! i) * orbo E ! q ! i)
     \<and> dmzoo E xpy xmy ! p ! q =
         (\<Sum>j<nocc E. (\<Sum>i<nocc E. orbo E ! p ! i * doo xpy xmy ! i ! j) * orbo E ! q ! j)
       + (\<Sum>b<nvir E. (\<Sum>a<nvir E. orbv E ! p ! a * dvv xpy xmy ! a ! b) * orbv E ! q ! b)
     \<and> xpy_of (E\<lparr>td_singlet := s\<rparr>) (Array X, Array Y) = Inr xpy
     \<and> xmy_of (E\<lparr>td_singlet := s\<rparr>) (Array X, Array Y) = Inr xmy
     \<and> dmzvop (E\<lparr>td_singlet := s\<rparr>) xpy = dmzvop E xpy
     \<and> dmzvom (E\<lparr>td_singlet := s\<rparr>) xmy = dmzvom E xmy
     \<and> dmzoo (E\<lparr>td_singlet := s\<rparr>) xpy xmy = dmzoo E xpy xmy"
proof -
  have no: "0 < nocc E" using assms(1) by (simp add: wf_mo_def)
  let ?P = "mk (nvir E) (nocc E) (\<lambda>a i. X ! i ! a + Y ! i ! a)"
  let ?M = "mk (nvir E) (nocc E) (\<lambda>a i. X ! i ! a - Y ! i ! a)"
  have P: "xpy_of E (Array X, Array Y) = Inr ?P"
    using assms(2,3) no by (rule xpy_of_arrays)
  have M: "xmy_of E (Array X, Array Y) = Inr ?M"
    using assms(2,3) no by (rule xmy_of_arrays)
  have e: "?P ! a ! i = X ! i ! a + Y ! i ! a" "?M ! a ! i = X ! i ! a - Y ! i ! a"
    using assms(4,6) by (simp_all add: nth_mk)
  from density_entries [OF assms(1) P M assms(4-9), of s] P M e
  show ?thesis by blast
qed

theorem density_assembler_witness:
  "wf_mo (Eg 1)
   \<and> rect (nocc (Eg 1)) (nvir (Eg 1)) [[3]] \<and> rect (nocc (Eg 1)) (nvir (Eg 1)) [[1]]
   \<and> 0 < nvir (Eg 1) \<and> 0 < nocc (Eg 1) \<and> 1 < nao (Eg 1)
   \<and> xpy_of (Eg 1) (Array [[3]], Array [[1]]) = Inr [[4]]
   \<and> xmy_of (Eg 1) (Array [[3]], Array [[1]]) = Inr [[2]]
   \<and> dvv [[4]] [[2]] ! 0 ! 0 = 20
   \<and> doo [[4]] [[2]] ! 0 ! 0 = - 20
   \<and> dmzvop (Eg 1) [[4]] ! 0 ! 1 = 4
   \<and> dmzvom (Eg 1) [[2]] ! 0 ! 1 = 2
   \<and> dmzoo (Eg 1) [[4]] [[2]] ! 0 ! 1 = 0
   \<and> dmzvop (Eg 1\<lparr>td_singlet := False\<rparr>) [[4]] = dmzvop (Eg 1) [[4]]"
proof -
  have r: "rect (nocc (Eg 1)) (nvir (Eg 1)) [[3]]" "rect (nocc (Eg 1)) (nvir (Eg 1)) [[1]]"
    by (simp_all add: Eg_dims rect_def)
  have b: "(0::nat) < nvir (Eg 1)" "(0::nat) < nocc (Eg 1)" "(0::nat) < nao (Eg 1)" "1 < nao (Eg 1)"
    by (simp_all add: Eg_dims)
  from density_assembler [OF Eg_wf r b(1) b(1) b(2) b(2) b(3) b(4), of False]
  obtain xpy xmy where
    "xpy_of (Eg 1) (Array [[3]], Array [[1]]) = Inr xpy"
    "xmy_of (Eg 1) (Array [[3]], Array [[1]]) = Inr xmy"
    and v: "dvv xpy xmy ! 0 ! 0 =
         (\<Sum>i<nocc (Eg 1). xpy ! 0 ! i * xpy ! 0 ! i + xmy ! 0 ! i * xmy ! 0 ! i)"
      "doo xpy xmy ! 0 ! 0 =
         - (\<Sum>a<nvir (Eg 1). xpy ! a ! 0 * xpy ! a ! 0) - (\<Sum>a<nvir (Eg 1). xmy ! a ! 0 * xmy ! a ! 0)"
      "dmzvop (Eg 1) xpy ! 0 ! 1 =
         (\<Sum>i<nocc (Eg 1). (\<Sum>a<nvir (Eg 1). orbv (Eg 1) ! 0 ! a * xpy ! a ! i) * orbo (Eg 1) ! 1 ! i)"
      "dmzvom (Eg 1) xmy ! 0 ! 1 =
         (\<Sum>i<nocc (Eg 1). (\<Sum>a<nvir (Eg 1). orbv (Eg 1) ! 0 ! a * xmy ! a ! i) * orbo (Eg 1) ! 1 ! i)"
      "dmzoo (Eg 1) xpy xmy ! 0 ! 1 =
         (\<Sum>j<nocc (Eg 1). (\<Sum>i<nocc (Eg 1). orbo (Eg 1) ! 0 ! i * doo xpy xmy ! i ! j) * orbo (Eg 1) ! 1 ! j)
       + (\<Sum>b<nvir (Eg 1). (\<Sum>a<nvir (Eg 1). orbv (Eg 1) ! 0 ! a * dvv xpy xmy ! a ! b) * orbv (Eg 1) ! 1 ! b)"
      "dmzvop (Eg 1\<lparr>td_singlet := False\<rparr>) xpy = dmzvop (Eg 1) xpy"
    by blast
  then have x: "xpy = [[4]]" "xmy = [[2]]" by (simp_all add: Eg_xpy Eg_xmy)
  from v [unfolded x] r b Eg_wf [of 1] show ?thesis
    by (simp add: Eg_xpy Eg_xmy Eg_dims Eg_orb Eg_dens)
qed

text \<open>
  C3.  A call with \<open>state = 0\<close> is not an error: it logs the warning, calls the
  ground-state gradient method with the atom list it was given and returns that result.
  Nothing else happens in the call (no sanity check, no call of \<^verbatim>\<open>grad_elec\<close>, which alone
  runs the density assembly, the CPHF solve and the contraction, and no call of
  \<^verbatim>\<open>grad_nuc\<close>), and \<^verbatim>\<open>self.de\<close> is left as it was.
\<close>

theorem ground_state_bypass:
  "Gradients_kernel E self xy 0 singlet atmlst =
     (Inr (scf_grad_kernel E atmlst),
      self\<lparr>trace := trace self @
        [Warn ''state=0 found in the input. Gradients of ground state is computed.'',
         GroundStateKernel atmlst]\<rparr>)
   \<and> de (snd (Gradients_kernel E self xy 0 singlet atmlst)) = de self
   \<and> new_events self (snd (Gradients_kernel E self xy 0 singlet atmlst)) =
        [Warn ''state=0 found in the input. Gradients of ground state is computed.'',
         GroundStateKernel atmlst]"
  by (simp add: Gradients_kernel_def new_events_def)

text \<open>
  C4.  The entries of \<open>zeta\<close> are the mean of the two orbital energies inside the
  occupied and the virtual block and the energy of the column's orbital in the two
  off-diagonal blocks (\<open>zeta[a,i]\<close> is the energy of the occupied \<open>i\<close>, \<open>zeta[i,a]\<close> that of
  the virtual \<open>a\<close>); \<open>dm1\<close> holds \<open>doo\<close> plus twice the identity, \<open>dvv\<close>, and \<open>z1\<close> in the
  virtual-occupied block; and the AO matrix is \<open>C (im0 + zeta * dm1) C\<^sup>T\<close>.
\<close>

theorem zeta_weighting:
  assumes "wf_mo E" and "length (mo_energy E) = nmo E"
    and "rect (nvir E) (nocc E) xpy" "rect (nvir E) (nocc E) xmy" "rect (nvir E) (nocc E) z"
    and "p < nmo E" "q < nmo E"
  shows
    "zeta E ! p ! q =
       (if (p < nocc E) = (q < nocc E) then (mo_energy E ! p + mo_energy E ! q) * 0.5
        else mo_energy E ! q)
   \<and> dm1 E xpy xmy z ! p ! q =
       (if p < nocc E \<and> q < nocc E then doo xpy xmy ! p ! q + (if p = q then 2 else 0)
        else if nocc E \<le> p \<and> nocc E \<le> q then dvv xpy xmy ! (p - nocc E) ! (q - nocc E)
        else if nocc E \<le> p \<and> q < nocc E then z ! (p - nocc E) ! q
        else 0)
   \<and> im0_ao E singlet xpy xmy z =
       dot3 (mo_coeff E)
         (madd (im0_mo E singlet xpy xmy z) (mmul (zeta E) (dm1 E xpy xmy z)))
         (mT (mo_coeff E))"
proof -
  have "nocc E \<le> nmo E" using assms(1) by (simp add: wf_mo_def)
  from zeta_nth [OF assms(2) this assms(6,7)] dm1_nth [OF assms(1,3,4,5,6,7)]
  show ?thesis by (simp add: im0_ao_def)
qed

theorem zeta_weighting_witness:
  "wf_mo (Eg 1) \<and> length (mo_energy (Eg 1)) = nmo (Eg 1)
   \<and> rect (nvir (Eg 1)) (nocc (Eg 1)) [[4]] \<and> rect (nvir (Eg 1)) (nocc (Eg 1)) [[2]]
   \<and> rect (nvir (Eg 1)) (nocc (Eg 1)) [[0]] \<and> 1 < nmo (Eg 1)
   \<and> mo_energy (Eg 1) = [- 1, 1]
   \<and> zeta (Eg 1) ! 1 ! 0 = - 1 \<and> zeta (Eg 1) ! 0 ! 1 = 1
   \<and> zeta (Eg 1) ! 0 ! 0 = - 1 \<and> zeta (Eg 1) ! 1 ! 1 = 1
   \<and> dm1 (Eg 1) [[4]] [[2]] [[0]] ! 1 ! 0 = 0
   \<and> dm1 (Eg 1) [[4]] [[2]] [[0]] ! 0 ! 0 = - 18"
  using
    zeta_weighting [where E = "Eg 1" and xpy = "[[4]]" and xmy = "[[2]]" and z = "[[0]]"
      and p = 1 and q = 0]
    zeta_weighting [where E = "Eg 1" and xpy = "[[4]]" and xmy = "[[2]]" and z = "[[0]]"
      and p = 0 and q = 1]
    zeta_weighting [where E = "Eg 1" and xpy = "[[4]]" and xmy = "[[2]]" and z = "[[0]]"
      and p = 0 and q = 0]
    zeta_weighting [where E = "Eg 1" and xpy = "[[4]]" and xmy = "[[2]]" and z = "[[0]]"
      and p = 1 and q = 1]
  by (simp add: Eg_wf Eg_dims Eg_fields rect_def Eg_dens)

text \<open>
  C5.  The derivative build is called on the four densities \<open>oo0\<close>,
  \<open>dmz1doo + dmz1doo\<^sup>T\<close>, \<open>dmzvop + dmzvop\<^sup>T\<close>, \<open>dmzvom - dmzvom\<^sup>T\<close>; the combined potential
  is \<open>2J - K\<close> on each of them for a singlet, and for a triplet \<open>2J - K\<close> on the first two
  and \<open>-K\<close> on the last two.
\<close>

theorem vhf1_channels:
  "grad_dms E xpy xmy z1 =
     [oo0 E,
      madd (dmz1doo E xpy xmy z1) (mT (dmz1doo E xpy xmy z1)),
      madd (dmzvop E xpy) (mT (dmzvop E xpy)),
      msub (dmzvom E xmy) (mT (dmzvom E xmy))]
   \<and> vhf1 E True xpy xmy z1 =
       map (\<lambda>dm. tsub (tsmul (fst (grad_get_jk E dm)) 2) (snd (grad_get_jk E dm)))
         (grad_dms E xpy xmy z1)
   \<and> vhf1 E False xpy xmy z1 =
       map (\<lambda>dm. tsub (tsmul (fst (grad_get_jk E dm)) 2) (snd (grad_get_jk E dm)))
         (take 2 (grad_dms E xpy xmy z1))
       @ map (\<lambda>dm. tneg (snd (grad_get_jk E dm))) (drop 2 (grad_dms E xpy xmy z1))"
  by (simp add: vhf1_def grad_dms_def Let_def)

text \<open>
  C6.  For a call with \<open>state \<ge> 1\<close>: an amplitude pair that is not given is the solver's
  stored pair of index \<open>state - 1\<close>, a singlet flag that is not given is the solver's, an
  atom list that is not given is all atoms.  When the amplitudes and the solver's answer
  have the shapes the kernel reshapes them to, the atoms are atoms of the molecule and
  the nuclear-repulsion gradient has one row of three per atom, the call returns the
  electronic gradient of these inputs plus the nuclear-repulsion gradient over the same
  atoms, an array of one row of three per atom, and stores it in \<^verbatim>\<open>self.de\<close>.
\<close>

theorem driver_defaults:
  assumes "1 \<le> state"
    and "xy = None \<longrightarrow> state \<le> int (length (td_xy E))"
    and "xy' = (case xy of None \<Rightarrow> td_xy E ! nat (state - 1) | Some p \<Rightarrow> p)"
    and "s' = (case singlet of None \<Rightarrow> td_singlet E | Some s \<Rightarrow> s)"
    and "a' = (case atmlst of None \<Rightarrow> map int [0..<natm E] | Some l \<Rightarrow> l)"
    and "xpy_of E xy' = Inr xpy" and "xmy_of E xy' = Inr xmy"
    and "z1_of E s' xpy xmy = Inr z"
    and "valid_atoms E a'"
    and "rect (length a') 3 (grad_nuc E a')"
  shows "\<exists>d. grad_elec E xy' s' (Some a') = Inr d
          \<and> fst (Gradients_kernel E self xy state singlet atmlst) = Inr (madd d (grad_nuc E a'))
          \<and> de (snd (Gradients_kernel E self xy state singlet atmlst)) = Some (madd d (grad_nuc E a'))
          \<and> rect (length a') 3 (madd d (grad_nuc E a'))"
proof -
  from de_loop_returns [OF assms(9)] obtain d where d: "de_loop E s' xpy xmy z a' = Inr d"
    by blast
  then have k: "grad_elec E xy' s' (Some a') = Inr d"
    by (simp add: grad_elec_def kernel_def assms(6,7,8))
  have look: "(case xy of None \<Rightarrow> py_index (td_xy E) (state - 1) | Some p \<Rightarrow> Inr p) = Inr xy'"
    using assms(1,2,3) by (auto simp: py_index_def Let_def split: option.splits)
  have r: "rect (length a') 3 (madd d (grad_nuc E a'))"
    using de_loop_rect [OF d] assms(10) by (rule madd_rect)
  have st: "state \<noteq> 0" using assms(1) by simp
  have "Gradients_kernel E self xy state singlet atmlst =
        (Inr (madd d (grad_nuc E a')),
         self\<lparr>de := Some (madd d (grad_nuc E a')),
              trace := trace self @ [CheckSanity, GradElec xy' s' a'] @
                [GradNuc a', Note ''--------------'',
                 Note ''           x                y                z'']
                @ map2 NoteAtom a' (madd d (grad_nuc E a')) @ [Note ''--------------'']\<rparr>)"
    unfolding Gradients_kernel_def look
    using st k by (simp add: Let_def assms(4,5) [symmetric])
  with k r show ?thesis by simp
qed

theorem driver_defaults_witness:
  "(1::int) \<le> 1 \<and> (1::int) \<le> int (length (td_xy (Eg 1)))
   \<and> td_xy (Eg 1) ! nat (1 - 1) = (Array [[1]], Scalar 0)
   \<and> td_singlet (Eg 1) = True \<and> map int [0..<natm (Eg 1)] = [0, 1]
   \<and> xpy_of (Eg 1) (Array [[1]], Scalar 0) = Inr [[1]]
   \<and> xmy_of (Eg 1) (Array [[1]], Scalar 0) = Inr [[1]]
   \<and> z1_of (Eg 1) True [[1]] [[1]] = Inr [[0]]
   \<and> valid_atoms (Eg 1) [0, 1]
   \<and> grad_nuc (Eg 1) [0, 1] = [[0, 0, 0], [0, 0, 1]]
   \<and> grad_elec (Eg 1) (Array [[1]], Scalar 0) True (Some [0, 1]) = Inr [[10, 12, 24], [- 10, 0, - 4]]
   \<and> fst (Gradients_kernel (Eg 1) fresh None 1 None None) = Inr [[10, 12, 24], [- 10, 0, - 3]]
   \<and> de (snd (Gradients_kernel (Eg 1) fresh None 1 None None)) = Some [[10, 12, 24], [- 10, 0, - 3]]
   \<and> rect 2 3 [[10, 12, 24], [- 10, 0, - 3]]"
proof -
  have g: "grad_elec (Eg 1) (Array [[1]], Scalar 0) True (Some [0, 1]) = Inr [[10, 12, 24], [- 10, 0, - 4]]"
    by (simp add: grad_elec_def Eg_kernel_atoms Eg_kernel_first)
  have n: "grad_nuc (Eg 1) [0, 1] = [[0, 0, 0], [0, 0, 1]]"
    by (simp add: Eg_fields)
  have "\<exists>d. grad_elec (Eg 1) (Array [[1]], Scalar 0) True (Some [0, 1]) = Inr d
          \<and> fst (Gradients_kernel (Eg 1) fresh None 1 None None) = Inr (madd d (grad_nuc (Eg 1) [0, 1]))
          \<and> de (snd (Gradients_kernel (Eg 1) fresh None 1 None None)) = Some (madd d (grad_nuc (Eg 1) [0, 1]))
          \<and> rect (length [0::int, 1]) 3 (madd d (grad_nuc (Eg 1) [0, 1]))"
    by (rule driver_defaults [where E = "Eg 1" and state = 1 and xy = None and singlet = None
          and atmlst = None and xpy = "[[1]]" and xmy = "[[1]]" and z = "[[0]]"])
       (simp_all add: Eg_fields Eg_atoms Eg_xpy Eg_xmy Eg_z1 rect_def upt_conv_Cons)
  then have
    "fst (Gradients_kernel (Eg 1) fresh None 1 None None) = Inr [[10, 12, 24], [- 10, 0, - 3]]
     \<and> de (snd (Gradients_kernel (Eg 1) fresh None 1 None None)) = Some [[10, 12, 24], [- 10, 0, - 3]]
     \<and> rect 2 3 [[10, 12, 24], [- 10, 0, - 3]]"
    unfolding g n by (auto simp: madd_def rect_def)
  with g n show ?thesis
    by (simp add: Eg_fields Eg_atoms Eg_xpy Eg_xmy Eg_z1 upt_conv_Cons)
qed

text \<open>
  C7, as amended.  In the Tamm-Dancoff limit, Y the zero matrix of the shape of X or the
  number 0 that the solver stores, \<open>xpy\<close> and \<open>xmy\<close> are both the transpose of X, so the
  intermediates that are the same function of \<open>xpy\<close> and of \<open>xmy\<close> coincide: the
  back-transformed densities \<open>dmzvop\<close> and \<open>dmzvom\<close>, and the two contractions summed in
  \<open>dvv\<close> and in \<open>doo\<close>.
\<close>

theorem tda_limit:
  assumes "rect (nocc E) (nvir E) X"
    and "Y = Scalar 0 \<or> Y = Array (zeros (nocc E) (nvir E))"
  shows "\<exists>xpy xmy.
           xpy_of E (Array X, Y) = Inr xpy \<and> xmy_of E (Array X, Y) = Inr xmy
         \<and> xpy = mT X \<and> xmy = mT X
         \<and> dmzvop E xpy = dmzvom E xmy
         \<and> einsum_ai_bi_ab xpy xpy = einsum_ai_bi_ab xmy xmy
         \<and> einsum_ai_aj_ij xpy xpy = einsum_ai_aj_ij xmy xmy"
proof -
  have p: "np_binop (+) (Array X) Y = Inr (Array X)"
    using assms np_binop_zero [of "nocc E" "nvir E" X "(+)"] by auto
  have m: "np_binop (-) (Array X) Y = Inr (Array X)"
    using assms np_binop_zero [of "nocc E" "nvir E" X "(-)"] by auto
  have r: "np_reshape (nocc E) (nvir E) (Array X) = Inr X"
    using assms(1) by (simp add: length_concat_rect reshape_concat_rect)
  show ?thesis
    by (simp add: xpy_of_def xmy_of_def p m r dmzvop_def dmzvom_def del: np_reshape.simps)
qed

theorem tda_limit_witness:
  "rect (nocc (Eg 1)) (nvir (Eg 1)) [[1]]
   \<and> zeros (nocc (Eg 1)) (nvir (Eg 1)) = [[0]]
   \<and> xpy_of (Eg 1) (Array [[1]], Scalar 0) = Inr [[1]]
   \<and> xmy_of (Eg 1) (Array [[1]], Scalar 0) = Inr [[1]]
   \<and> xpy_of (Eg 1) (Array [[1]], Array [[0]]) = Inr [[1]]
   \<and> xmy_of (Eg 1) (Array [[1]], Array [[0]]) = Inr [[1]]
   \<and> dmzvop (Eg 1) [[1]] = dmzvom (Eg 1) [[1]]"
proof -
  have r: "rect (nocc (Eg 1)) (nvir (Eg 1)) [[1]]" by (simp add: Eg_dims rect_def)
  have z: "zeros (nocc (Eg 1)) (nvir (Eg 1)) = [[0]]" by (simp add: Eg_dims ev)
  have t: "mT [[1]] = [[1]]" by (simp add: ev)
  have "xpy_of (Eg 1) (Array [[1]], Scalar 0) = Inr [[1]]
      \<and> xmy_of (Eg 1) (Array [[1]], Scalar 0) = Inr [[1]]
      \<and> dmzvop (Eg 1) [[1]] = dmzvom (Eg 1) [[1]]"
    using tda_limit [OF r, of "Scalar 0"] unfolding t by auto
  moreover have "xpy_of (Eg 1) (Array [[1]], Array [[0]]) = Inr [[1]]
      \<and> xmy_of (Eg 1) (Array [[1]], Array [[0]]) = Inr [[1]]"
    using tda_limit [OF r, of "Array [[0]]"] unfolding t z by auto
  ultimately show ?thesis using r z by simp
qed

text \<open>
  C7 as stated fails for the effective potentials: \<open>veff0mop\<close> is built from the
  symmetrized density \<open>dmzvop + dmzvop\<^sup>T\<close> and \<open>veff0mom\<close> from the antisymmetrized
  \<open>dmzvom - dmzvom\<^sup>T\<close>, and they differ in the Tamm-Dancoff state of the example, for
  either value of the singlet flag.
\<close>

theorem tda_limit_counterexample:
  "xpy_of (Eg 1) (Array [[1]], Scalar 0) = Inr [[1]]
   \<and> xmy_of (Eg 1) (Array [[1]], Scalar 0) = Inr [[1]]
   \<and> veff0mop (Eg 1) True [[1]] = [[0, - 1], [- 1, 0]]
   \<and> veff0mop (Eg 1) False [[1]] = [[0, - 1], [- 1, 0]]
   \<and> veff0mom (Eg 1) [[1]] = [[0, 1], [- 1, 0]]
   \<and> veff0mop (Eg 1) True [[1]] \<noteq> veff0mom (Eg 1) [[1]]
   \<and> veff0mop (Eg 1) False [[1]] \<noteq> veff0mom (Eg 1) [[1]]"
  by (simp add: Eg_xpy Eg_xmy Eg_veff0mop Eg_veff0mom)

text \<open>
  C8.  A second call with the same arguments on the object the first call left behind
  returns what the first returned, leaves \<^verbatim>\<open>self.de\<close> as the first left it, and does again
  everything the first did (the same sanity check and the same calls of \<^verbatim>\<open>grad_elec\<close> and
  \<^verbatim>\<open>grad_nuc\<close>): nothing is read from the object's stored result.
\<close>

theorem kernel_idempotent:
  "fst (Gradients_kernel E (snd (Gradients_kernel E self xy state singlet atmlst)) xy state singlet atmlst)
     = fst (Gradients_kernel E self xy state singlet atmlst)
   \<and> de (snd (Gradients_kernel E (snd (Gradients_kernel E self xy state singlet atmlst)) xy state singlet atmlst))
     = de (snd (Gradients_kernel E self xy state singlet atmlst))
   \<and> new_events (snd (Gradients_kernel E self xy state singlet atmlst))
        (snd (Gradients_kernel E (snd (Gradients_kernel E self xy state singlet atmlst)) xy state singlet atmlst))
     = new_events self (snd (Gradients_kernel E self xy state singlet atmlst))"
proof -
  let ?s1 = "snd (Gradients_kernel E self xy state singlet atmlst)"
  let ?evs = "trace (snd (Gradients_kernel E fresh xy state singlet atmlst))"
  have 1: "trace ?s1 = trace self @ ?evs"
    by (rule Gradients_kernel_trace)
  have 2: "trace (snd (Gradients_kernel E ?s1 xy state singlet atmlst)) = trace ?s1 @ ?evs"
    by (rule Gradients_kernel_trace)
  have "new_events ?s1 (snd (Gradients_kernel E ?s1 xy state singlet atmlst)) = ?evs"
    unfolding new_events_def 2 by simp
  moreover have "new_events self ?s1 = ?evs"
    unfolding new_events_def 1 by simp
  ultimately show ?thesis
    using Gradients_kernel_fst [of E ?s1 xy state singlet atmlst self]
      Gradients_kernel_de [of E self xy state singlet atmlst]
    by simp
qed

text \<open>
  C9.  The potential of the X-Y channel is the exchange matrix of the antisymmetrized
  density with a minus sign, transformed to the MO basis.  Its definition takes no
  singlet flag, and the Coulomb matrix of the build does not enter: replacing J by
  anything leaves \<open>veff0mom\<close> as it is.
\<close>

theorem veff0mom_exchange_only:
  "veff0mom E xmy =
     dot3 (mT (mo_coeff E))
       (mneg (snd (get_jk E 0 (msub (dmzvom E xmy) (mT (dmzvom E xmy)))))) (mo_coeff E)
   \<and> veff0mom (E\<lparr>get_jk := (\<lambda>h dm. (J h dm, snd (get_jk E h dm)))\<rparr>) xmy = veff0mom E xmy"
  by (simp add: veff0mom_def Let_def)

text \<open>
  C10, as amended.  With no amplitude pair given and \<open>state\<close> not 0, the only check is
  Python's own on \<^verbatim>\<open>self._td.xy[state-1]\<close>, for \<open>n\<close> stored states: a state above \<open>n\<close> or
  below \<open>1 - n\<close> raises \<^verbatim>\<open>IndexError\<close> and leaves the object as it was; a state from 1 to
  \<open>n\<close> uses the pair of index \<open>state - 1\<close>; a negative state from \<open>1 - n\<close> to \<open>-1\<close> silently
  uses the pair of index \<open>n + state - 1\<close>, which for \<open>state = -1\<close> is the last but one.
\<close>

theorem state_index_lookup:
  assumes "state \<noteq> 0" and "n = int (length (td_xy E))"
  shows
    "(n < state \<or> state < 1 - n \<longrightarrow>
        Gradients_kernel E self None state singlet atmlst = (Inl IndexError, self))
   \<and> (1 \<le> state \<and> state \<le> n \<longrightarrow>
        Gradients_kernel E self None state singlet atmlst =
        Gradients_kernel E self (Some (td_xy E ! nat (state - 1))) state singlet atmlst)
   \<and> (1 - n \<le> state \<and> state < 0 \<longrightarrow>
        Gradients_kernel E self None state singlet atmlst =
        Gradients_kernel E self (Some (td_xy E ! nat (n + state - 1))) state singlet atmlst)"
proof -
  have found: "Gradients_kernel E self None state singlet atmlst =
               Gradients_kernel E self (Some p) state singlet atmlst"
    if "py_index (td_xy E) (state - 1) = Inr p" for p
    using that by (simp add: Gradients_kernel_def)
  have 1: "Gradients_kernel E self None state singlet atmlst = (Inl IndexError, self)"
    if "n < state \<or> state < 1 - n"
  proof -
    have "py_index (td_xy E) (state - 1) = Inl IndexError"
      using that assms(2) by (intro py_index_Inl) auto
    then show ?thesis using assms(1) by (simp add: Gradients_kernel_def)
  qed
  have 2: "Gradients_kernel E self None state singlet atmlst =
        Gradients_kernel E self (Some (td_xy E ! nat (state - 1))) state singlet atmlst"
    if "1 \<le> state \<and> state \<le> n"
  proof -
    have "py_index (td_xy E) (state - 1) = Inr (td_xy E ! nat (state - 1))"
      using that assms(2) py_index_Inr [of "td_xy E" "state - 1"] by simp
    then show ?thesis by (rule found)
  qed
  have 3: "Gradients_kernel E self None state singlet atmlst =
        Gradients_kernel E self (Some (td_xy E ! nat (n + state - 1))) state singlet atmlst"
    if "1 - n \<le> state \<and> state < 0"
  proof -
    have a: "py_index (td_xy E) (state - 1) = Inr (td_xy E ! nat (n + (state - 1)))"
      using that assms(2) py_index_Inr [of "td_xy E" "state - 1"] by simp
    have b: "n + (state - 1) = n + state - 1" by linarith
    show ?thesis using found [OF a] unfolding b .
  qed
  from 1 2 3 show ?thesis by blast
qed

theorem state_index_lookup_witness:
  "(- 1::int) \<noteq> 0 \<and> (3::int) \<noteq> 0 \<and> (2::int) = int (length (td_xy (Eg 1)))
   \<and> td_xy (Eg 1) ! nat (2 + - 1 - 1) = (Array [[1]], Scalar 0)
   \<and> Gradients_kernel (Eg 1) fresh None (- 1) None None =
       Gradients_kernel (Eg 1) fresh (Some (Array [[1]], Scalar 0)) (- 1) None None
   \<and> Gradients_kernel (Eg 1) fresh None 3 None None = (Inl IndexError, fresh)
   \<and> Gradients_kernel (Eg 1) fresh None (- 2) None None = (Inl IndexError, fresh)"
proof -
  have n: "(2::int) = int (length (td_xy (Eg 1)))" by (simp add: Eg_fields)
  have p: "td_xy (Eg 1) ! nat (2 + - 1 - 1) = (Array [[1]], Scalar 0)" by (simp add: Eg_fields)
  have a: "Gradients_kernel (Eg 1) fresh None (- 1) None None =
       Gradients_kernel (Eg 1) fresh (Some (td_xy (Eg 1) ! nat (2 + - 1 - 1))) (- 1) None None"
    using state_index_lookup [where E = "Eg 1" and state = "- 1" and n = 2 and self = fresh
      and singlet = None and atmlst = None, OF _ n] by simp
  have b: "Gradients_kernel (Eg 1) fresh None 3 None None = (Inl IndexError, fresh)"
    using state_index_lookup [where E = "Eg 1" and state = 3 and n = 2 and self = fresh
      and singlet = None and atmlst = None, OF _ n] by simp
  have c: "Gradients_kernel (Eg 1) fresh None (- 2) None None = (Inl IndexError, fresh)"
    using state_index_lookup [where E = "Eg 1" and state = "- 2" and n = 2 and self = fresh
      and singlet = None and atmlst = None, OF _ n] by simp
  from a [unfolded p] b c n p show ?thesis by simp
qed

text \<open>
  C10 as stated fails.  With the two stored states of the example, \<open>state = -1\<close> returns
  the gradient of the first state, not that of the last; with a single stored state it
  raises \<^verbatim>\<open>IndexError\<close>.
\<close>

theorem negative_state_counterexample:
  "fst (Gradients_kernel (Eg 1) fresh None (- 1) None None) = Inr [[10, 12, 24], [- 10, 0, - 3]]
   \<and> fst (Gradients_kernel (Eg 1) fresh (Some (td_xy (Eg 1) ! 0)) (- 1) None None)
       = Inr [[10, 12, 24], [- 10, 0, - 3]]
   \<and> fst (Gradients_kernel (Eg 1) fresh (Some (last (td_xy (Eg 1)))) (- 1) None None)
       = Inr [[76, 120, 222], [- 304, - 108, - 309]]
   \<and> fst (Gradients_kernel (Eg 1) fresh None (- 1) None None)
       \<noteq> fst (Gradients_kernel (Eg 1) fresh (Some (last (td_xy (Eg 1)))) (- 1) None None)
   \<and> Gradients_kernel (Eg 1\<lparr>td_xy := [(Array [[1]], Scalar 0)]\<rparr>) fresh None (- 1) None None
       = (Inl IndexError, fresh)"
proof -
  have a: "fst (Gradients_kernel (Eg 1) fresh (Some (Array [[1]], Scalar 0)) (- 1) None None)
           = Inr [[10, 12, 24], [- 10, 0, - 3]]"
    using Eg_driver [of "- 1" 1 "(Array [[1]], Scalar 0)" _ fresh, OF _ Eg_kernel_first]
    by (simp add: Eg_fields madd_def)
  have b: "fst (Gradients_kernel (Eg 1) fresh (Some (Array [[3]], Array [[1]])) (- 1) None None)
           = Inr [[76, 120, 222], [- 304, - 108, - 309]]"
    using Eg_driver [of "- 1" 1 "(Array [[3]], Array [[1]])" _ fresh, OF _ Eg_kernel_second]
    by (simp add: Eg_fields madd_def)
  have c: "Gradients_kernel (Eg 1) fresh None (- 1) None None =
           Gradients_kernel (Eg 1) fresh (Some (Array [[1]], Scalar 0)) (- 1) None None"
    by (simp add: Gradients_kernel_def Eg_lookup)
  have d: "Gradients_kernel (Eg 1\<lparr>td_xy := [(Array [[1]], Scalar 0)]\<rparr>) fresh None (- 1) None None
           = (Inl IndexError, fresh)"
    by (simp add: Gradients_kernel_def py_index_def)
  show ?thesis unfolding c d using a b by (simp add: Eg_fields)
qed

end
